theory Spec2Isabelle
  imports Main "HOL-Library.Word"
begin

unbundle bit_operations_syntax

section \<open>Data model of eda/device.h\<close>

text \<open>
  The run-control core of the EDA board software (eda/device.c, eda/device.h) is embedded
  function by function. The device context \<open>Device_t\<close> is a record that each
  function takes and returns; everything outside the context (the asynchronous signal,
  the FPGA registers, the sockets, the C library) is a \<open>world\<close> that is passed along
  and an \<open>env\<close> of oracles that says what the outside answers. Calls of
  \<open>log_printf\<close> are kept on the failure paths, where the message tells which
  failure happened, and left out on the normal paths; \<open>log_flush\<close>,
  \<open>usleep\<close> and \<open>sleep\<close> are left out.
\<close>

type_synonym u8 = "8 word"
type_synonym u32 = "32 word"

text \<open>
  Modelled from the spec: the number of module slots \<open>NB_RFM\<close> and of chips per
  module \<open>NB_HR\<close> come from fpga.h, which is not among the sources. The spec gives
  "fixed count N, e.g. 4"; device.c loads the tables \<open>dac_floor_4rfm.csv\<close>,
  \<open>pa_gain_4rfm.csv\<close> and \<open>mask_4rfm.csv\<close>, prints \<open>rfm_on[3:0]\<close> and
  loops over 8 chip addresses.
\<close>

definition NB_RFM :: nat where
  "NB_RFM = 4"

definition NB_HR :: nat where
  "NB_HR = 8"

text \<open>
  The anonymous struct of \<open>task[NB_RFM]\<close>. Pointers are 32-bit addresses (the
  target is the ARM processor of the SoCKit board); \<open>addr\<close> is a heap string or
  \<open>NULL\<close>.
\<close>

record task_t =
  dif :: u8
  task_rshaper :: u32
  addr :: "string option"
  port :: int
  sck :: int
  beg :: u32
  end' :: u32
  bcid48_offset :: u32
  rc :: int

record Device_t =
  thresh_delta :: u32
  rshaper :: u32
  rfm_on :: u32
  ip_addr :: "string option"
  run_cnt :: int
  trig_mode :: int
  cfg_mode :: "u8 list"
  dac_floor_table :: "nat \<Rightarrow> u32"
  pa_gain_table :: "nat \<Rightarrow> u32"
  mask_table :: "nat \<Rightarrow> u32"
  mem_fd :: int
  daq_filename :: string
  daq_file :: "nat option"
  cycle_id :: u32
  task :: "nat \<Rightarrow> task_t"

section \<open>C strings\<close>

text \<open>A string literal as the bytes it occupies, with its terminating NUL.\<close>

definition cstr :: "string \<Rightarrow> u8 list" where
  "cstr s = map (\<lambda>c. of_nat (of_char c)) s @ [0]"

text \<open>
  \<open>strcmp\<close> walks both byte sequences until they differ or both hold NUL; the
  result is the difference of the two bytes read as unsigned char. Reading past the end
  of either sequence is outside the object: \<open>None\<close>.
\<close>

fun strcmp :: "u8 list \<Rightarrow> u8 list \<Rightarrow> int option" where
  "strcmp (a # as) (b # bs) =
     (if a \<noteq> b then Some (uint a - uint b)
      else if a = 0 then Some 0
      else strcmp as bs)"
| "strcmp _ _ = None"

text \<open>
  \<open>strcpy\<close> writes the source, NUL included, over the beginning of the
  destination; the bytes behind it keep their values.
\<close>

definition strcpy :: "u8 list \<Rightarrow> u8 list \<Rightarrow> u8 list" where
  "strcpy dst src = src @ drop (length src) dst"

section \<open>The outside world\<close>

datatype event =
    Call string "nat list"
  | Log string
  | Sock_send int "u8 list"
  | Sock_recv int nat
  | Write_buffer "nat option" "u8 list"
  | Fclose nat
  | Close int

text \<open>
  \<open>clock\<close> counts the observations made so far of something that may change by
  itself (the flag \<open>g_state\<close>, a status register, a socket); \<open>trace\<close> lists
  the calls made to the outside, oldest first; \<open>mem\<close> is the memory the buffer
  windows point into and \<open>daq_fill\<close> the address up to which the cycle buffer is
  filled; \<open>open_files\<close> are the \<open>FILE\<close> handles that are open.
\<close>

record world =
  clock :: nat
  g_state :: u8
  trace :: "event list"
  mem :: "u32 \<Rightarrow> u8"
  daq_fill :: u32
  open_files :: "nat set"

record env =
  sigint :: "nat \<Rightarrow> bool"
  pll_lck :: "nat \<Rightarrow> u32"
  fpga_ro :: "nat \<Rightarrow> u32"
  fifo_ready :: "nat \<Rightarrow> u32"
  ramfull :: "nat \<Rightarrow> u32"
  send_ok :: "nat \<Rightarrow> bool"
  recv_in :: "nat \<Rightarrow> u8 list option"
  dif_data :: "nat \<Rightarrow> nat \<Rightarrow> u8 list"
  daq_base :: u32
  open_mem :: int
  mmap_lw_ok :: bool
  mmap_ok :: bool
  hrsc_set_config :: "nat \<Rightarrow> int"
  hrsc_reset_read_registers :: "nat \<Rightarrow> int"
  fopen_sc :: "nat option"
  system_scp :: int
  socket_res :: "nat \<Rightarrow> int"
  inet_pton_res :: "string \<Rightarrow> int"
  connect_res :: "nat \<Rightarrow> int"

definition hw :: "string \<Rightarrow> nat list \<Rightarrow> world \<Rightarrow> world" where
  "hw f args w = w\<lparr>trace := trace w @ [Call f args]\<rparr>"

definition log_printf :: "string \<Rightarrow> world \<Rightarrow> world" where
  "log_printf msg w = w\<lparr>trace := trace w @ [Log msg]\<rparr>"

text \<open>
  \<open>handle_sigint\<close> (lines 48 to 52) sets \<open>g_state\<close> to 0 when the signal arrives.
  \<open>sigint e t\<close> says that the signal arrives at observation \<open>t\<close>, whatever is
  observed then; a read of \<open>g_state\<close> finds 0 once a signal has arrived, and the value
  stored before otherwise.
\<close>

definition read_g_state :: "env \<Rightarrow> world \<Rightarrow> u8 \<times> world" where
  "read_g_state e w =
     (let g = (if list_ex (sigint e) [0..<Suc (clock w)] then 0 else g_state w)
      in (g, w\<lparr>clock := Suc (clock w), g_state := g\<rparr>))"

definition device_stop_loop :: "world \<Rightarrow> world" where
  "device_stop_loop w = w\<lparr>g_state := 0\<rparr>"

text \<open>
  \<open>send\<close> on a socket: \<open>-1\<close> on failure, else the number of bytes handed over.
  \<open>recv\<close> of at most \<open>n\<close> bytes into \<open>buf\<close>: \<open>-1\<close> on failure and the
  buffer untouched, else the number of bytes received, which overwrite the beginning of
  the buffer.
\<close>

definition sock_send :: "env \<Rightarrow> int \<Rightarrow> u8 list \<Rightarrow> world \<Rightarrow> int \<times> world" where
  "sock_send e s bytes w =
     (if send_ok e (clock w) then int (length bytes) else - 1,
      w\<lparr>clock := Suc (clock w), trace := trace w @ [Sock_send s bytes]\<rparr>)"

definition sock_recv :: "env \<Rightarrow> int \<Rightarrow> u8 list \<Rightarrow> nat \<Rightarrow> world \<Rightarrow> int \<times> u8 list \<times> world" where
  "sock_recv e s buf n w =
     (let w' = w\<lparr>clock := Suc (clock w), trace := trace w @ [Sock_recv s n]\<rparr>
      in case recv_in e (clock w) of
           None \<Rightarrow> (- 1, buf, w')
         | Some bs \<Rightarrow> (int (length (take n bs)), take n bs @ drop (length (take n bs)) buf, w'))"

definition read_bytes :: "(u32 \<Rightarrow> u8) \<Rightarrow> u32 \<Rightarrow> nat \<Rightarrow> u8 list" where
  "read_bytes m p n = map (\<lambda>i. m (p + of_nat i)) [0..<n]"

section \<open>Registration of modules\<close>

text \<open>
  \<open>device_boot_rfm\<close>, device.c lines 108 to 123. A slot outside the array
  \<open>task[NB_RFM]\<close> is an out-of-bounds write: \<open>None\<close>.
\<close>

definition device_boot_rfm ::
    "Device_t \<Rightarrow> u8 \<Rightarrow> nat \<Rightarrow> u32 \<Rightarrow> u32 \<Rightarrow> (int \<times> Device_t) option" where
  "device_boot_rfm ctx d slot rs trig =
     (if NB_RFM \<le> slot then None
      else
        let ctx = ctx\<lparr>rfm_on := rfm_on ctx OR push_bit slot 1\<rparr>;
            ctx = ctx\<lparr>task := (task ctx)(slot := (task ctx slot)\<lparr>dif := d\<rparr>)\<rparr>;
            ctx = ctx\<lparr>task := (task ctx)(slot := (task ctx slot)\<lparr>task_rshaper := rs\<rparr>)\<rparr>
        in if rshaper ctx \<noteq> 0 \<and> rshaper ctx \<noteq> rs then Some (- 1, ctx)
           else Some (0, ctx\<lparr>rshaper := rs, trig_mode := sint trig\<rparr>))"

text \<open>
  \<open>device_configure_dif\<close>, lines 125 to 138: the loop over the slots, then the
  function.
\<close>

fun configure_dif_loop :: "Device_t \<Rightarrow> u8 \<Rightarrow> string \<Rightarrow> int \<Rightarrow> nat list \<Rightarrow> int \<times> Device_t" where
  "configure_dif_loop ctx d a p [] = (1, ctx)"
| "configure_dif_loop ctx d a p (i # is) =
     (if dif (task ctx i) \<noteq> d then configure_dif_loop ctx d a p is
      else
        let ctx = ctx\<lparr>task := (task ctx)(i := (task ctx i)\<lparr>addr := Some a\<rparr>)\<rparr>;
            ctx = ctx\<lparr>task := (task ctx)(i := (task ctx i)\<lparr>port := p\<rparr>)\<rparr>
        in (0, ctx))"

definition device_configure_dif :: "Device_t \<Rightarrow> u8 \<Rightarrow> string \<Rightarrow> int \<Rightarrow> int \<times> Device_t" where
  "device_configure_dif ctx d a p =
     configure_dif_loop (ctx\<lparr>cfg_mode := strcpy (cfg_mode ctx) (cstr ''db'')\<rparr>) d a p [0..<NB_RFM]"

section \<open>The DIF exchange\<close>

text \<open>\<open>device_daq_send_dif\<close>, lines 846 to 896.\<close>

definition device_daq_send_dif :: "env \<Rightarrow> Device_t \<Rightarrow> nat \<Rightarrow> world \<Rightarrow> int \<times> world" where
  "device_daq_send_dif e ctx slot w =
     (let s = sck (task ctx slot);
          buf = [0x48, 0x44, 0x52, 0, 0, 0, 0, 0];
          data = beg (task ctx slot);
          size = end' (task ctx slot) - beg (task ctx slot);
          buf = buf[4 + 0 := ucast size];
          buf = buf[4 + 1 := ucast (drop_bit 8 size)];
          buf = buf[4 + 2 := ucast (drop_bit 16 size)];
          buf = buf[4 + 3 := ucast (drop_bit 24 size)];
          (err, w) = sock_send e s buf w
      in if err = - 1 then (err, log_printf ''could not send DIF header'' w)
         else
           let (ret, buf, w) = sock_recv e s buf 4 w
           in if ret \<noteq> 4 \<or> strcmp buf (cstr ''ACK'') \<noteq> Some 0
              then (1, log_printf ''could not recv HDR-ACK'' w)
              else if size = 0 then (0, w)
              else
                let (err, w) = sock_send e s (read_bytes (mem w) data (unat size)) w;
                    w = (if err = - 1 then log_printf ''could not send DIF data'' w else w);
                    (ret, buf, w) = sock_recv e s buf 4 w
                in if ret \<noteq> 4 \<or> strcmp buf (cstr ''ACK'') \<noteq> Some 0
                   then (1, log_printf ''could not recv DIF data ACK'' w)
                   else (0, w))"

section \<open>The readout loop\<close>

text \<open>
  Modelled from the spec: the status flags of the Hardware Register Interface (fpga.h is
  not among the sources). Each read is "non-blocking, returns current value on each
  call": an observation, answered by the \<open>env\<close>.
\<close>

definition poll :: "(env \<Rightarrow> nat \<Rightarrow> u32) \<Rightarrow> env \<Rightarrow> world \<Rightarrow> u32 \<times> world" where
  "poll reg e w = (reg e (clock w), w\<lparr>clock := Suc (clock w)\<rparr>)"

definition SYNC_pll_lck :: "env \<Rightarrow> world \<Rightarrow> u32 \<times> world" where
  "SYNC_pll_lck = poll pll_lck"

definition SYNC_fpga_ro :: "env \<Rightarrow> world \<Rightarrow> u32 \<times> world" where
  "SYNC_fpga_ro = poll fpga_ro"

definition SYNC_fifo_ready :: "env \<Rightarrow> world \<Rightarrow> u32 \<times> world" where
  "SYNC_fifo_ready = poll fifo_ready"

definition SYNC_ramfull :: "env \<Rightarrow> world \<Rightarrow> u32 \<times> world" where
  "SYNC_ramfull = poll ramfull"

text \<open>
  Modelled from the spec: the cycle buffer of fpga.h. "A single reusable buffer, reset to
  empty at the start of every iteration; the Hardware Register Interface fills disjoint
  sub-ranges for each active module during buffering", and the local run store "holds the
  full concatenated cycle buffers in arrival order". \<open>device_daq_write_dif\<close> is declared
  in device.c and defined elsewhere: it reads one module's data and appends it to the
  cycle buffer, and "buffer window is rewritten every cycle by the readout step".
\<close>

fun write_bytes :: "(u32 \<Rightarrow> u8) \<Rightarrow> u32 \<Rightarrow> u8 list \<Rightarrow> u32 \<Rightarrow> u8" where
  "write_bytes m p [] = m"
| "write_bytes m p (b # bs) = write_bytes (m(p := b)) (p + 1) bs"

definition DAQ_reset_buffer :: "env \<Rightarrow> world \<Rightarrow> world" where
  "DAQ_reset_buffer e w = (hw ''DAQ_reset_buffer'' [] w)\<lparr>daq_fill := daq_base e\<rparr>"

definition DAQ_write_buffer :: "env \<Rightarrow> nat option \<Rightarrow> world \<Rightarrow> world" where
  "DAQ_write_buffer e f w =
     w\<lparr>trace := trace w @
        [Write_buffer f (read_bytes (mem w) (daq_base e) (unat (daq_fill w - daq_base e)))]\<rparr>"

definition device_daq_write_dif :: "env \<Rightarrow> Device_t \<Rightarrow> nat \<Rightarrow> world \<Rightarrow> Device_t \<times> world" where
  "device_daq_write_dif e ctx slot w =
     (let bs = dif_data e (clock w) slot;
          b = daq_fill w;
          w = hw ''device_daq_write_dif'' [slot] w;
          w = w\<lparr>clock := Suc (clock w), mem := write_bytes (mem w) b bs,
                daq_fill := b + of_nat (length bs)\<rparr>;
          ctx = ctx\<lparr>task := (task ctx)(slot := (task ctx slot)\<lparr>beg := b\<rparr>)\<rparr>;
          ctx = ctx\<lparr>task := (task ctx)(slot := (task ctx slot)\<lparr>end' := daq_fill w\<rparr>)\<rparr>
      in (ctx, w))"

text \<open>
  The busy waits \<open>while ((flag() == 0) && (g_state == 1)) ;\<close>. They may go on for
  ever, so they run on fuel: \<open>None\<close> is a wait that has not ended when the fuel is
  used up. The flag is read first, \<open>g_state\<close> only when the flag is 0.
\<close>

fun wait_flag :: "(env \<Rightarrow> world \<Rightarrow> u32 \<times> world) \<Rightarrow> env \<Rightarrow> nat \<Rightarrow> world \<Rightarrow> world option" where
  "wait_flag flag e 0 w = None"
| "wait_flag flag e (Suc n) w =
     (let (v, w) = flag e w
      in if v = 0 then
           (let (g, w) = read_g_state e w
            in if g = 1 then wait_flag flag e n w else Some w)
         else Some w)"

text \<open>
  The buffering loop of both variants (lines 742 to 752 and 815 to 825). Its
  \<open>break\<close> leaves this \<open>for\<close> loop only.
\<close>

fun buffering :: "env \<Rightarrow> nat list \<Rightarrow> Device_t \<times> world \<Rightarrow> Device_t \<times> world" where
  "buffering e [] cw = cw"
| "buffering e (rfm_index # rest) (ctx, w) =
     (if (drop_bit rfm_index (rfm_on ctx) AND 1) = 0 then buffering e rest (ctx, w)
      else
        let (ctx, w) = device_daq_write_dif e ctx rfm_index w;
            (g, w) = read_g_state e w
        in if g = 0 then (ctx, w) else buffering e rest (ctx, w))"

text \<open>
  The streaming loop of both variants (lines 761 to 771 and 829 to 839). The call of
  \<open>device_daq_send_dif\<close> is entered in the trace before the socket calls it makes.
\<close>

fun streaming :: "env \<Rightarrow> nat list \<Rightarrow> Device_t \<times> world \<Rightarrow> Device_t \<times> world" where
  "streaming e [] cw = cw"
| "streaming e (i # rest) (ctx, w) =
     (if (drop_bit i (rfm_on ctx) AND 1) = 0 then streaming e rest (ctx, w)
      else
        let (err, w) = device_daq_send_dif e ctx i (hw ''device_daq_send_dif'' [i] w)
        in if err \<noteq> 0
           then streaming e rest
                  (ctx\<lparr>task := (task ctx)(i := (task ctx i)\<lparr>rc := err\<rparr>)\<rparr>,
                   log_printf ''could not send dif data'' w)
           else streaming e rest (ctx, w))"

text \<open>
  One pass through the body of \<open>while (g_state == 1)\<close>: \<open>Brk\<close> when a
  \<open>break\<close> of the run loop was taken, \<open>Nxt\<close> when the end of the body was reached.
\<close>

datatype ctl = Brk | Nxt

text \<open>\<open>device_loop_dcc\<close>, lines 713 to 788.\<close>

definition dcc_cycle :: "env \<Rightarrow> nat \<Rightarrow> Device_t \<times> world \<Rightarrow> (ctl \<times> Device_t \<times> world) option" where
  "dcc_cycle e n cw =
     (case cw of (ctx, w) \<Rightarrow>
        let w = DAQ_reset_buffer e w
        in case wait_flag SYNC_fpga_ro e n w of None \<Rightarrow> None
           | Some w \<Rightarrow>
        let (g, w) = read_g_state e w
        in if g = 0 then Some (Brk, ctx, w)
           else case wait_flag SYNC_fifo_ready e n w of None \<Rightarrow> None
           | Some w \<Rightarrow>
        let (g, w) = read_g_state e w
        in if g = 0 then Some (Brk, ctx, w)
           else
             let (ctx, w) = buffering e [0..<NB_RFM] (ctx, w);
                 w = hw ''SYNC_fifo_ack'' [] w;
                 w = DAQ_write_buffer e (daq_file ctx) w;
                 (ctx, w) = streaming e [0..<NB_RFM] (ctx, w)
             in Some (Nxt, ctx\<lparr>cycle_id := cycle_id ctx + 1\<rparr>, w))"

fun device_loop_dcc :: "env \<Rightarrow> nat \<Rightarrow> Device_t \<times> world \<Rightarrow> (Device_t \<times> world) option" where
  "device_loop_dcc e 0 cw = None"
| "device_loop_dcc e (Suc n) (ctx, w) =
     (let (g, w) = read_g_state e w
      in if g = 1 then
           (case dcc_cycle e n (ctx, w) of
              None \<Rightarrow> None
            | Some (Brk, cw) \<Rightarrow> Some cw
            | Some (Nxt, cw) \<Rightarrow> device_loop_dcc e n cw)
         else Some (ctx, w))"

text \<open>\<open>device_loop_noise\<close>, lines 790 to 844.\<close>

definition noise_cycle :: "env \<Rightarrow> nat \<Rightarrow> Device_t \<times> world \<Rightarrow> (ctl \<times> Device_t \<times> world) option" where
  "noise_cycle e n cw =
     (case cw of (ctx, w) \<Rightarrow>
        let w = DAQ_reset_buffer e w
        in case wait_flag SYNC_ramfull e n w of None \<Rightarrow> None
           | Some w \<Rightarrow>
        let (g, w) = read_g_state e w
        in if g = 0 then Some (Brk, ctx, w)
           else
             let w = hw ''SYNC_ramfull_ext'' [] w
             in case wait_flag SYNC_fifo_ready e n w of None \<Rightarrow> None
           | Some w \<Rightarrow>
        let (g, w) = read_g_state e w
        in if g = 0 then Some (Brk, ctx, w)
           else
             let (ctx, w) = buffering e [0..<NB_RFM] (ctx, w);
                 w = hw ''SYNC_fifo_ack'' [] w;
                 (ctx, w) = streaming e [0..<NB_RFM] (ctx, w);
                 w = hw ''SYNC_start_acq'' [] w
             in Some (Nxt, ctx\<lparr>cycle_id := cycle_id ctx + 1\<rparr>, w))"

fun device_loop_noise :: "env \<Rightarrow> nat \<Rightarrow> Device_t \<times> world \<Rightarrow> (Device_t \<times> world) option" where
  "device_loop_noise e 0 cw = None"
| "device_loop_noise e (Suc n) (ctx, w) =
     (let (g, w) = read_g_state e w
      in if g = 1 then
           (case noise_cycle e n (ctx, w) of
              None \<Rightarrow> None
            | Some (Brk, cw) \<Rightarrow> Some cw
            | Some (Nxt, cw) \<Rightarrow> device_loop_noise e n cw)
         else Some (ctx, w))"

text \<open>\<open>device_loop\<close>, lines 702 to 711.\<close>

definition device_loop :: "env \<Rightarrow> nat \<Rightarrow> Device_t \<times> world \<Rightarrow> (Device_t \<times> world) option" where
  "device_loop e n cw =
     (if trig_mode (fst cw) = 0 then device_loop_dcc e n cw
      else if trig_mode (fst cw) = 1 then device_loop_noise e n cw
      else Some cw)"

section \<open>Stopping\<close>

text \<open>
  \<open>fclose\<close> of the C library: the stream is closed and must not be used again.
  Passing a null pointer, or a stream that is closed already, is undefined behaviour.
  So is passing a null pointer as the source string of \<open>inet_pton\<close> (see
  \<open>device_init_scks\<close> below).
\<close>

datatype fault = Null_stream | Closed_stream | Null_string

definition fclose :: "nat option \<Rightarrow> world \<Rightarrow> fault + world" where
  "fclose f w =
     (case f of
        None \<Rightarrow> Inl Null_stream
      | Some h \<Rightarrow>
          if h \<in> open_files w
          then Inr (w\<lparr>trace := trace w @ [Fclose h], open_files := open_files w - {h}\<rparr>)
          else Inl Closed_stream)"

text \<open>\<open>device_stop\<close>, lines 898 to 916.\<close>

definition device_stop :: "Device_t \<Rightarrow> world \<Rightarrow> fault + (int \<times> Device_t \<times> world)" where
  "device_stop ctx w =
     (let w = (if trig_mode ctx = 0 then hw ''CNT_stop'' [] w else w);
          w = (if trig_mode ctx = 1 then hw ''CNT_stop'' [] (hw ''SYNC_stop_acq'' [] w) else w);
          w = hw ''CNT_reset'' [] w;
          w = hw ''SYNC_reset_fpga'' [] w;
          w = hw ''SYNC_reset_hr'' [] w
      in case fclose (daq_file ctx) w of
           Inl f \<Rightarrow> Inl f
         | Inr w \<Rightarrow> Inr (0, ctx\<lparr>daq_file := None\<rparr>, w))"

section \<open>Initialization\<close>

text \<open>\<open>device_init_mmap\<close>, lines 286 to 313.\<close>

definition device_init_mmap :: "env \<Rightarrow> Device_t \<Rightarrow> world \<Rightarrow> int \<times> Device_t \<times> world" where
  "device_init_mmap e ctx w =
     (let ctx = ctx\<lparr>mem_fd := 0\<rparr>;
          ctx = ctx\<lparr>mem_fd := open_mem e\<rparr>;
          w = hw ''open'' [] w
      in if mem_fd ctx = - 1
         then (- 1, ctx\<lparr>mem_fd := 0\<rparr>, log_printf ''ERROR: could not open /dev/mem'' w)
         else if \<not> mmap_lw_ok e
         then
           (let w = log_printf ''could not mmap lw HPS to FPGA bus'' (hw ''mmap_lw_h2f'' [] w);
                w = w\<lparr>trace := trace w @ [Close (mem_fd ctx)]\<rparr>
            in (- 1, ctx\<lparr>mem_fd := 0\<rparr>, w))
         else if \<not> mmap_ok e
         then
           (let w = hw ''mmap_h2f'' [] (hw ''mmap_lw_h2f'' [] w);
                w = log_printf ''could not mmap HPS to FPGA bus'' w;
                w = hw ''munmap_lw_h2f'' [] w;
                w = w\<lparr>trace := trace w @ [Close (mem_fd ctx)]\<rparr>
            in (- 1, ctx\<lparr>mem_fd := 0\<rparr>, w))
         else (0, ctx, hw ''mmap_h2f'' [] (hw ''mmap_lw_h2f'' [] w)))"

text \<open>
  The poll of the PLL lock in \<open>device_init_fpga\<close>, lines 320 to 324:
  \<open>while ((!SYNC_pll_lck()) && (cnt_poll < 100)) { usleep(10000); cnt_poll++; }\<close>.
  The flag is read before the counter is compared.
\<close>

function pll_wait :: "env \<Rightarrow> nat \<Rightarrow> world \<Rightarrow> nat \<times> world" where
  "pll_wait e cnt_poll w =
     (if fst (SYNC_pll_lck e w) = 0 \<and> cnt_poll < 100
      then pll_wait e (cnt_poll + 1) (snd (SYNC_pll_lck e w))
      else (cnt_poll, snd (SYNC_pll_lck e w)))"
  by pat_completeness auto
termination
  by (relation "measure (\<lambda>(e, cnt_poll, w). 100 - cnt_poll)") auto

text \<open>\<open>device_init_fpga\<close>, lines 315 to 358.\<close>

definition device_init_fpga :: "env \<Rightarrow> Device_t \<Rightarrow> world \<Rightarrow> int \<times> world" where
  "device_init_fpga e ctx w =
     (let w = hw ''SYNC_reset_fpga'' [] w;
          (cnt_poll, w) = pll_wait e 0 w
      in if 100 \<le> cnt_poll then (- 1, log_printf ''the PLL is not locked'' w)
         else
           let (lck, w) = SYNC_pll_lck e w;
               w = fold (\<lambda>rfm_index w.
                      if (drop_bit rfm_index (rfm_on ctx) AND 1) = 1
                      then hw ''RFM_enable'' [rfm_index] (hw ''RFM_on'' [rfm_index] w)
                      else w) [0..<NB_RFM] w;
               w = hw ''PIO_ctrl_get'' [] w;
               w = (if trig_mode ctx = 0
                    then hw ''SYNC_enable_dcc_ramfull'' []
                           (hw ''SYNC_enable_dcc_busy'' [] (hw ''SYNC_select_command_dcc'' [] w))
                    else w);
               w = (if trig_mode ctx = 1 then hw ''SYNC_select_command_soft'' [] w else w)
           in (0, w))"

text \<open>
  The three table loops that \<open>device_init_hrsc_from_db\<close> and
  \<open>device_init_hrsc_from_csv\<close> run for an active module: masks, DAC thresholds
  (with the offset \<open>delta\<close> added, which is \<open>thresh_delta\<close> from csv and
  nothing from db) and preamplifier gains.
\<close>

definition push_tables :: "Device_t \<Rightarrow> u32 \<Rightarrow> nat \<Rightarrow> world \<Rightarrow> world" where
  "push_tables ctx delta rfm_index w =
     (let w = fold (\<lambda>(hr_addr, chan).
                 hw ''HRSC_set_mask''
                   [hr_addr, chan, unat (mask_table ctx (64 * (NB_HR * rfm_index + hr_addr) + chan))])
               (List.product [0..<8] [0..<64]) w;
          w = fold (\<lambda>hr_addr w.
                 let th0 = dac_floor_table ctx (3 * (NB_HR * rfm_index + hr_addr) + 0) + delta;
                     th1 = dac_floor_table ctx (3 * (NB_HR * rfm_index + hr_addr) + 1) + delta;
                     th2 = dac_floor_table ctx (3 * (NB_HR * rfm_index + hr_addr) + 2) + delta
                 in hw ''HRSC_set_DAC2'' [hr_addr, unat th2]
                      (hw ''HRSC_set_DAC1'' [hr_addr, unat th1]
                         (hw ''HRSC_set_DAC0'' [hr_addr, unat th0] w)))
               [0..<8] w
      in fold (\<lambda>(hr_addr, chan).
            hw ''HRSC_set_preamp''
              [hr_addr, chan, unat (pa_gain_table ctx (64 * (NB_HR * rfm_index + hr_addr) + chan))])
          (List.product [0..<8] [0..<64]) w)"

text \<open>\<open>device_init_hrsc_from_db\<close>, lines 391 to 444.\<close>

fun hrsc_from_db_loop :: "env \<Rightarrow> Device_t \<Rightarrow> nat list \<Rightarrow> world \<Rightarrow> int \<times> world" where
  "hrsc_from_db_loop e ctx [] w = (0, w)"
| "hrsc_from_db_loop e ctx (rfm_index # rest) w =
     (if (drop_bit rfm_index (rfm_on ctx) AND 1) = 1 then
        (let w = push_tables ctx 0 rfm_index w;
             w = hw ''HRSC_set_config'' [rfm_index] w
         in if hrsc_set_config e rfm_index < 0
            then (- 1, hw ''PRINT_config'' [rfm_index] w)
            else
              let w = hw ''HRSC_reset_read_registers'' [rfm_index] w
              in if hrsc_reset_read_registers e rfm_index < 0
                 then (- 1, hw ''PRINT_config'' [rfm_index] w)
                 else hrsc_from_db_loop e ctx rest w)
      else hrsc_from_db_loop e ctx rest w)"

definition device_init_hrsc_from_db :: "env \<Rightarrow> Device_t \<Rightarrow> world \<Rightarrow> int \<times> world" where
  "device_init_hrsc_from_db e ctx w = hrsc_from_db_loop e ctx [0..<NB_RFM] w"

text \<open>\<open>device_init_hrsc_from_csv\<close>, lines 446 to 549.\<close>

fun hrsc_from_csv_loop :: "env \<Rightarrow> Device_t \<Rightarrow> nat list \<Rightarrow> world \<Rightarrow> int \<times> world" where
  "hrsc_from_csv_loop e ctx [] w = (0, w)"
| "hrsc_from_csv_loop e ctx (rfm_index # rest) w =
     (if (drop_bit rfm_index (rfm_on ctx) AND 1) = 1 then
        (let w = push_tables ctx (thresh_delta ctx) rfm_index w;
             w = hw ''HRSC_set_config'' [rfm_index] w
         in if hrsc_set_config e rfm_index < 0
            then (- 1, hw ''PRINT_config'' [rfm_index] w)
            else
              let w = hw ''HRSC_reset_read_registers'' [rfm_index] w
              in if hrsc_reset_read_registers e rfm_index < 0
                 then (- 1, hw ''PRINT_config'' [rfm_index] w)
                 else hrsc_from_csv_loop e ctx rest (hw ''HRSC_write_conf_mult'' [rfm_index] w))
      else hrsc_from_csv_loop e ctx rest w)"

definition device_init_hrsc_from_csv :: "env \<Rightarrow> Device_t \<Rightarrow> world \<Rightarrow> int \<times> world" where
  "device_init_hrsc_from_csv e ctx w =
     (let w = fold (\<lambda>n. hw ''HRSC_copy_conf'' [0, n]) [1..<8] w
      in case fopen_sc e of
           None \<Rightarrow> (- 1, log_printf ''could not open file'' w)
         | Some sc_file \<Rightarrow>
             let w = w\<lparr>open_files := insert sc_file (open_files w)\<rparr>;
                 (err, w) = hrsc_from_csv_loop e ctx [0..<NB_RFM] w
             in if err \<noteq> 0 then (err, w)
                else
                  let w = w\<lparr>trace := trace w @ [Fclose sc_file],
                             open_files := open_files w - {sc_file}\<rparr>;
                      w = hw ''system'' [] w;
                      err = system_scp e
                  in if err \<noteq> 0
                     then (err, log_printf ''could not send config to history store'' w)
                     else (0, w))"

text \<open>\<open>device_init_hrsc\<close>, lines 363 to 389.\<close>

definition device_init_hrsc :: "env \<Rightarrow> Device_t \<Rightarrow> world \<Rightarrow> int \<times> world" where
  "device_init_hrsc e ctx w =
     (let w = hw ''HRSC_set_bit'' [0, 854, 0] w;
          w = hw ''HRSC_set_shaper_resis'' [0, unat (rshaper ctx)] w;
          w = hw ''HRSC_set_shaper_capa'' [0, 3] w;
          w = fold (\<lambda>hr_addr. hw ''HRSC_set_chip_id'' [hr_addr, hr_addr + 1]) [0..<8] w
      in if strcmp (cfg_mode ctx) (cstr ''db'') = Some 0 then device_init_hrsc_from_db e ctx w
         else if strcmp (cfg_mode ctx) (cstr ''csv'') = Some 0
         then device_init_hrsc_from_csv e ctx w
         else (- 1, log_printf ''invalid configuration mode'' w))"

text \<open>
  \<open>device_init_scks\<close>, lines 246 to 284. The address of a slot is handed to
  \<open>inet_pton\<close> as it is (line 268): when it is the null pointer the call is undefined
  behaviour, and the result is the fault \<open>Null_string\<close> together with the world in
  which the call was made. Otherwise the result is \<open>Inr\<close> of the returned value, the
  context and the world.
\<close>

type_synonym init_result = "fault \<times> world + int \<times> Device_t \<times> world"

fun init_scks_loop :: "env \<Rightarrow> nat list \<Rightarrow> Device_t \<Rightarrow> world \<Rightarrow> init_result" where
  "init_scks_loop e [] ctx w = Inr (0, ctx, w)"
| "init_scks_loop e (i # rest) ctx w =
     (if dif (task ctx i) = 0 then init_scks_loop e rest ctx w
      else
        let ctx = ctx\<lparr>task := (task ctx)(i := (task ctx i)\<lparr>sck := socket_res e i\<rparr>)\<rparr>;
            w = hw ''socket'' [i] w
        in if sck (task ctx i) < 0
           then Inr (- 1, ctx, log_printf ''could not create socket'' w)
           else
             let w = hw ''inet_pton'' [i] w
             in case addr (task ctx i) of
                  None \<Rightarrow> Inl (Null_string, w)
                | Some a \<Rightarrow>
                    if inet_pton_res e a \<le> 0
                    then Inr (- 1, ctx, log_printf ''could not convert socket-addr'' w)
                    else
                      let w = hw ''connect'' [i] w
                      in if connect_res e i < 0
                         then Inr (- 1, ctx, log_printf ''could not connect socket'' w)
                         else init_scks_loop e rest ctx w)"

definition device_init_scks :: "env \<Rightarrow> Device_t \<Rightarrow> world \<Rightarrow> init_result" where
  "device_init_scks e ctx w = init_scks_loop e [0..<NB_RFM] ctx w"

text \<open>\<open>device_initialize\<close>, lines 208 to 244. A fault in \<open>device_init_scks\<close> ends it.\<close>

definition device_initialize :: "env \<Rightarrow> Device_t \<Rightarrow> world \<Rightarrow> init_result" where
  "device_initialize e ctx w =
     (let (err, ctx, w) = device_init_mmap e ctx w
      in if err \<noteq> 0 then Inr (- 1, ctx, log_printf ''could not initialize mmap'' w)
         else
           let (err, w) = device_init_fpga e ctx w
           in if err \<noteq> 0 then Inr (- 1, ctx, log_printf ''could not initialize fpga'' w)
              else
                let (err, w) = device_init_hrsc e ctx w
                in if err \<noteq> 0 then Inr (- 1, ctx, log_printf ''could not initialize hrsc'' w)
                   else
                     case device_init_scks e ctx w of
                       Inl f \<Rightarrow> Inl f
                     | Inr (err, ctx, w) \<Rightarrow>
                         if err \<noteq> 0 then Inr (- 1, ctx, log_printf ''could not initialize scks'' w)
                         else Inr (0, ctx, w))"

section \<open>Sample inputs\<close>

text \<open>The context right after \<open>new_device\<close> (lines 64 to 75): zeroed, mode "csv".\<close>

definition new_task :: task_t where
  "new_task = \<lparr>dif = 0, task_rshaper = 0, addr = None, port = 0, sck = 0, beg = 0, end' = 0,
     bcid48_offset = 0, rc = 0\<rparr>"

definition new_device :: Device_t where
  "new_device = \<lparr>thresh_delta = 0, rshaper = 0, rfm_on = 0, ip_addr = None, run_cnt = 0,
     trig_mode = 0, cfg_mode = strcpy [0, 0, 0, 0] (cstr ''csv''),
     dac_floor_table = (\<lambda>_. 0), pa_gain_table = (\<lambda>_. 0), mask_table = (\<lambda>_. 0),
     mem_fd = 0, daq_filename = [], daq_file = None, cycle_id = 0, task = (\<lambda>_. new_task)\<rparr>"

text \<open>
  An outside where nothing goes wrong: no signal, every flag set, every send accepted,
  every receive answered by the four bytes \<open>ACK\<close> and NUL, one byte of data per
  module and cycle. And the world before the first call: \<open>g_state\<close> is 1.
\<close>

definition env_ok :: env where
  "env_ok = \<lparr>sigint = (\<lambda>_. False), pll_lck = (\<lambda>_. 1), fpga_ro = (\<lambda>_. 1),
     fifo_ready = (\<lambda>_. 1), ramfull = (\<lambda>_. 1), send_ok = (\<lambda>_. True),
     recv_in = (\<lambda>_. Some [0x41, 0x43, 0x4B, 0]), dif_data = (\<lambda>t slot. [of_nat slot + 0xA0]),
     daq_base = 0x1000, open_mem = 3, mmap_lw_ok = True, mmap_ok = True,
     hrsc_set_config = (\<lambda>_. 0), hrsc_reset_read_registers = (\<lambda>_. 0),
     fopen_sc = Some 7, system_scp = 0, socket_res = (\<lambda>i. 10 + int i),
     inet_pton_res = (\<lambda>_. 1), connect_res = (\<lambda>_. 0)\<rparr>"

definition world_init :: world where
  "world_init = \<lparr>clock = 0, g_state = 1, trace = [], mem = (\<lambda>_. 0), daq_fill = 0x1000,
     open_files = {}\<rparr>"

definition ctx_shaper1 :: Device_t where
  "ctx_shaper1 = new_device\<lparr>rshaper := 1\<rparr>"

definition ctx_boot_failed :: Device_t where
  "ctx_boot_failed = ctx_shaper1\<lparr>rfm_on := 1,
     task := (task ctx_shaper1)(0 := new_task\<lparr>dif := 5, task_rshaper := 2\<rparr>)\<rparr>"

text \<open>
  Two active modules, slots 0 and 1, with sockets 10 and 11, an open run file, and no
  data buffered yet; the same with a window of two bytes for slot 0; the same in the
  free-running mode.
\<close>

definition ctx_two :: Device_t where
  "ctx_two = new_device\<lparr>rfm_on := 3, daq_file := Some 1,
     task := (\<lambda>i. new_task\<lparr>dif := of_nat i + 1, sck := 10 + int i\<rparr>)\<rparr>"

definition ctx_window :: Device_t where
  "ctx_window = ctx_two\<lparr>task := (task ctx_two)(0 := (task ctx_two 0)\<lparr>beg := 0x1000, end' := 0x1002\<rparr>)\<rparr>"

definition ctx_noise :: Device_t where
  "ctx_noise = ctx_two\<lparr>trig_mode := 1\<rparr>"

definition world_run :: world where
  "world_run = world_init\<lparr>open_files := {1}\<rparr>"

text \<open>The signal arrives at observation \<open>t\<close>; nothing else goes wrong.\<close>

definition env_cancel_at :: "nat \<Rightarrow> env" where
  "env_cancel_at t = env_ok\<lparr>sigint := (\<lambda>t'. t' = t)\<rparr>"

text \<open>The send at observation \<open>t\<close> fails; the answer at observation \<open>t\<close> is \<open>r\<close>.\<close>

definition env_send_fails_at :: "nat \<Rightarrow> env" where
  "env_send_fails_at t = env_ok\<lparr>send_ok := (\<lambda>t'. t' \<noteq> t)\<rparr>"

definition env_answer_at :: "nat \<Rightarrow> u8 list \<Rightarrow> env" where
  "env_answer_at t r = env_ok\<lparr>recv_in := (\<lambda>t'. if t' = t then Some r else Some [0x41, 0x43, 0x4B, 0])\<rparr>"

text \<open>
  The answer at observation 10 is \<open>N\<close>, \<open>A\<close>, \<open>K\<close>, NUL, which is the answer to the
  header of slot 0 in the first cycle of \<open>device_loop_dcc\<close> and of
  \<open>device_loop_noise\<close>; the signal arrives at observation 32, when the loop is back
  at its head after the second cycle.
\<close>

definition env_refused_once :: env where
  "env_refused_once = env_ok\<lparr>sigint := (\<lambda>t. t = 32),
     recv_in := (\<lambda>t. if t = 10 then Some [0x4E, 0x41, 0x4B, 0] else Some [0x41, 0x43, 0x4B, 0])\<rparr>"

text \<open>
  The worlds of the first cycle from \<open>world_init\<close> under \<open>env_refused_once\<close>:
  the clock and the trace before the buffering loop, and what the buffering loop of two
  modules with one byte each leaves behind, in the context and in the world. The world in
  which the streaming loop begins, for each variant.
\<close>

definition world_at :: "nat \<Rightarrow> event list \<Rightarrow> world" where
  "world_at t tr = world_init\<lparr>clock := t, trace := tr\<rparr>"

definition ctx_buffered :: "Device_t \<Rightarrow> Device_t" where
  "ctx_buffered c = c\<lparr>task := (task c)
     (0 := (task c 0)\<lparr>beg := 0x1000, end' := 0x1001\<rparr>,
      1 := (task c 1)\<lparr>beg := 0x1001, end' := 0x1002\<rparr>)\<rparr>"

definition world_buffered :: "event list \<Rightarrow> world" where
  "world_buffered tr = (world_at 9 tr)\<lparr>mem := (\<lambda>_. 0)(0x1000 := 0xA0, 0x1001 := 0xA1),
     daq_fill := 0x1002\<rparr>"

definition world_streaming_dcc :: world where
  "world_streaming_dcc = world_buffered
     [Call ''DAQ_reset_buffer'' [], Call ''device_daq_write_dif'' [0],
      Call ''device_daq_write_dif'' [1], Call ''SYNC_fifo_ack'' [],
      Write_buffer (Some 1) [0xA0, 0xA1]]"

definition world_streaming_noise :: world where
  "world_streaming_noise = world_buffered
     [Call ''DAQ_reset_buffer'' [], Call ''SYNC_ramfull_ext'' [],
      Call ''device_daq_write_dif'' [0], Call ''device_daq_write_dif'' [1],
      Call ''SYNC_fifo_ack'' []]"

text \<open>The PLL never locks; everything else is as in \<open>env_ok\<close>.\<close>

definition env_no_lock :: env where
  "env_no_lock = env_ok\<lparr>pll_lck := (\<lambda>_. 0)\<rparr>"

section \<open>Notions used in the statements\<close>

text \<open>
  The 4-byte little-endian encoding of a length, in the words of the spec ("4-byte
  little-endian payload length"): byte \<open>i\<close> is digit \<open>i\<close> of the length in base 256.
  The header of the spec: "3-byte fixed tag, 1 reserved byte, 4-byte little-endian payload
  length".
\<close>

definition le32 :: "u32 \<Rightarrow> u8 list" where
  "le32 x = map (\<lambda>i. of_nat (unat x div 256 ^ i mod 256)) [0..<4]"

definition dif_header :: "u32 \<Rightarrow> u8 list" where
  "dif_header n = [0x48, 0x44, 0x52, 0] @ le32 n"

text \<open>
  The answer at observation \<open>t\<close> passes the acknowledgment check: something was
  received and its first four bytes are \<open>A\<close>, \<open>C\<close>, \<open>K\<close>, NUL.
\<close>

definition acked :: "env \<Rightarrow> nat \<Rightarrow> bool" where
  "acked e t = (case recv_in e t of None \<Rightarrow> False | Some r \<Rightarrow> take 4 r = cstr ''ACK'')"

text \<open>The byte sequences handed to \<open>send\<close> in a trace, in order.\<close>

definition sends :: "event list \<Rightarrow> u8 list list" where
  "sends tr = concat (map (\<lambda>ev. case ev of Sock_send s bs \<Rightarrow> [bs] | _ \<Rightarrow> []) tr)"

text \<open>The argument lists of the calls of \<open>f\<close> in a trace, in order.\<close>

fun called :: "string \<Rightarrow> event list \<Rightarrow> nat list list" where
  "called f [] = []"
| "called f (Call g args # tr) = (if g = f then args # called f tr else called f tr)"
| "called f (_ # tr) = called f tr"

text \<open>
  The world \<open>w'\<close> continues the world \<open>w\<close> and the message \<open>m\<close> has not been logged
  in between.
\<close>

definition quiet :: "string \<Rightarrow> world \<Rightarrow> world \<Rightarrow> bool" where
  "quiet m w w' = (\<exists>tr. trace w' = trace w @ tr \<and> Log m \<notin> set tr)"

text \<open>
  The world in which an initialization has ended: the one it returned in, or the one in
  which it met undefined behaviour.
\<close>

definition final_world :: "init_result \<Rightarrow> world" where
  "final_world r = (case r of Inl (f, w) \<Rightarrow> w | Inr (err, ctx, w) \<Rightarrow> w)"

section \<open>Evaluation of the sample inputs\<close>

lemmas sample_defs = device_daq_send_dif_def sock_send_def sock_recv_def read_bytes_def
  log_printf_def hw_def read_g_state_def poll_def SYNC_fpga_ro_def SYNC_fifo_ready_def
  SYNC_ramfull_def SYNC_pll_lck_def DAQ_reset_buffer_def DAQ_write_buffer_def
  device_daq_write_dif_def dcc_cycle_def noise_cycle_def cstr_def NB_RFM_def
  env_ok_def world_init_def new_device_def new_task_def ctx_two_def ctx_window_def
  ctx_noise_def world_run_def env_cancel_at_def env_send_fails_at_def env_answer_at_def Let_def

section \<open>Registration: what a refused \<open>device_boot_rfm\<close> leaves behind\<close>

lemma device_boot_rfm_sample:
  "device_boot_rfm ctx_shaper1 5 0 2 0 = Some (- 1, ctx_boot_failed)"
  by (simp add: device_boot_rfm_def ctx_shaper1_def ctx_boot_failed_def new_device_def
      new_task_def NB_RFM_def)

text \<open>
  Claim C8 says that a call of \<open>device_boot_rfm\<close> refused for a shaper mismatch
  leaves the slot's active bit, its dif identifier and its shaper value as they were.
  The function stores all three before it compares the shaper values (lines 110 to 112,
  the check is at line 114). On a device whose shaper value is 1, booting slot 0 with dif
  5 and shaper value 2 is refused, and the bit of slot 0, the dif identifier and the
  slot's shaper value have all changed.
\<close>

theorem device_boot_rfm_mismatch_changes_slot:
  "device_boot_rfm ctx_shaper1 5 0 2 0 = Some (- 1, ctx_boot_failed)
   \<and> rfm_on ctx_boot_failed \<noteq> rfm_on ctx_shaper1
   \<and> dif (task ctx_boot_failed 0) \<noteq> dif (task ctx_shaper1 0)
   \<and> task_rshaper (task ctx_boot_failed 0) \<noteq> task_rshaper (task ctx_shaper1 0)"
  using device_boot_rfm_sample
  by (simp add: ctx_shaper1_def ctx_boot_failed_def new_device_def new_task_def)

text \<open>
  Claim C8, amended: when \<open>device_boot_rfm\<close> returns nonzero, it returns -1 for a
  shaper mismatch, and the context differs from the one before the call in exactly this:
  the slot's bit in \<open>rfm_on\<close> is set, and the slot's dif identifier and shaper value
  are those of the refused call. The device-wide shaper value, the trigger mode and the
  other slots are as before.
\<close>

theorem device_boot_rfm_mismatch_registers_slot:
  assumes "device_boot_rfm ctx d slot rs trig = Some (r, ctx')" and "r \<noteq> 0"
  shows "r = - 1 \<and> rshaper ctx \<noteq> 0 \<and> rshaper ctx \<noteq> rs \<and> slot < NB_RFM
    \<and> ctx' = ctx\<lparr>rfm_on := rfm_on ctx OR push_bit slot 1,
          task := (task ctx)(slot := (task ctx slot)\<lparr>dif := d, task_rshaper := rs\<rparr>)\<rparr>
    \<and> (drop_bit slot (rfm_on ctx') AND 1) = 1"
proof -
  from assms have lt: "slot < NB_RFM"
    by (auto simp: device_boot_rfm_def split: if_splits)
  from assms lt have res: "r = - 1 \<and> rshaper ctx \<noteq> 0 \<and> rshaper ctx \<noteq> rs
    \<and> ctx' = ctx\<lparr>rfm_on := rfm_on ctx OR push_bit slot 1,
          task := (task ctx)(slot := (task ctx slot)\<lparr>dif := d, task_rshaper := rs\<rparr>)\<rparr>"
    by (auto simp: device_boot_rfm_def Let_def split: if_splits)
  have "bit (rfm_on ctx OR push_bit slot 1) slot"
    using lt by (simp add: bit_simps NB_RFM_def)
  then have "(drop_bit slot (rfm_on ctx OR push_bit slot 1) AND 1) = (1 :: u32)"
    by (simp add: bit_iff_and_drop_bit_eq_1)
  with res lt show ?thesis by simp
qed

theorem device_boot_rfm_mismatch_registers_slot_witness:
  "device_boot_rfm ctx_shaper1 5 0 2 0 = Some (- 1, ctx_boot_failed) \<and> (- 1 :: int) \<noteq> 0
   \<and> rshaper ctx_shaper1 \<noteq> 0 \<and> rshaper ctx_shaper1 \<noteq> 2
   \<and> (drop_bit 0 (rfm_on ctx_boot_failed) AND 1) = 1"
proof -
  have ne: "(- 1 :: int) \<noteq> 0" by simp
  from device_boot_rfm_mismatch_registers_slot [OF device_boot_rfm_sample ne]
  show ?thesis using device_boot_rfm_sample by simp
qed

section \<open>The DIF exchange: the five ways through \<open>device_daq_send_dif\<close>\<close>

lemma uint_diff_0: "(uint (a::u8) - uint b = 0) = (a = b)"
  by (simp add: word_uint_eq_iff)

lemma strcmp_ACK:
  "length r = 4 \<Longrightarrow> (strcmp (r @ xs) (cstr ''ACK'') = Some 0) = (r = cstr ''ACK'')"
  apply (cases r; simp add: cstr_def)
  subgoal for a r1 apply (cases r1; simp)
  subgoal for b r2 apply (cases r2; simp)
  subgoal for c r3 apply (cases r3; simp)
  using uint_diff_0 by fastforce
  done done done

lemma ack_accept:
  "(int (length (take 4 r)) = 4 \<and> strcmp (take 4 r @ drop (length (take 4 r)) buf) (cstr ''ACK'') = Some 0)
    = (take 4 r = cstr ''ACK'')"
proof (cases "length (take 4 r) = 4")
  case True
  then show ?thesis using strcmp_ACK [of "take 4 r"] by simp
next
  case False
  have "length (cstr ''ACK'') = 4" by (simp add: cstr_def)
  with False have "take 4 r \<noteq> cstr ''ACK''" by metis
  moreover have "(int k = 4) = (k = 4)" for k by auto
  ultimately show ?thesis using False by blast
qed

lemma le_byte: "(ucast (drop_bit n (x::u32)) :: u8) = of_nat (unat x div 2 ^ n mod 256)"
proof -
  have a: "unat (ucast y :: u8) = unat y mod 256" for y :: u32
    by (simp add: unsigned_ucast_eq take_bit_eq_mod)
  have b: "unat (drop_bit n x) = unat x div 2 ^ n"
    by (simp only: unat_drop_bit_eq) (simp only: drop_bit_eq_div)
  have "unat (ucast (drop_bit n x) :: u8) = unat x div 2 ^ n mod 256"
    using a [of "drop_bit n x"] b by (simp only:)
  moreover have "unat (of_nat (unat x div 2 ^ n mod 256) :: u8) = unat x div 2 ^ n mod 256"
    by (simp add: unat_of_nat)
  ultimately show ?thesis by (simp only: word_unat_eq_iff)
qed

lemma le32_bytes:
  "le32 x = [ucast x, ucast (drop_bit 8 x), ucast (drop_bit 16 x), ucast (drop_bit 24 x)]"
proof -
  have "(ucast x :: u8) = ucast (drop_bit 0 x)" by simp
  then show ?thesis
    unfolding le_byte le32_def by (simp add: upt_rec)
qed

lemma sock_recv_check:
  "(case sock_recv e s buf 4 w of (ret, buf', w') \<Rightarrow>
      (ret \<noteq> 4 \<or> strcmp buf' (cstr ''ACK'') \<noteq> Some 0) = (\<not> acked e (clock w))
      \<and> w' = w\<lparr>clock := Suc (clock w), trace := trace w @ [Sock_recv s 4]\<rparr>
      \<and> length buf' = max (length buf) (length (case recv_in e (clock w) of None \<Rightarrow> [] | Some r \<Rightarrow> take 4 r)))"
proof (cases "recv_in e (clock w)")
  case None
  then show ?thesis by (simp add: sock_recv_def acked_def)
next
  case (Some r)
  have "(int (length (take 4 r)) \<noteq> 4 \<or> strcmp (take 4 r @ drop (length (take 4 r)) buf) (cstr ''ACK'') \<noteq> Some 0)
     = (take 4 r \<noteq> cstr ''ACK'')"
    using ack_accept [of r buf] by blast
  with Some show ?thesis by (simp add: sock_recv_def acked_def Let_def)
qed

text \<open>
  What \<open>device_daq_send_dif\<close> returns and does, by what the outside answers: the header
  send fails; the header is not acknowledged; the window is empty; the payload is not
  acknowledged; the payload is acknowledged.
\<close>

lemma device_daq_send_dif_cases:
  fixes e ctx slot w
  defines "s \<equiv> sck (task ctx slot)"
    and "sz \<equiv> end' (task ctx slot) - beg (task ctx slot)"
    and "t \<equiv> clock w"
  defines "hdr \<equiv> Sock_send s (dif_header sz)"
    and "pay \<equiv> Sock_send s (read_bytes (mem w) (beg (task ctx slot)) (unat sz))"
  shows "device_daq_send_dif e ctx slot w =
    (if \<not> send_ok e t
     then (- 1, w\<lparr>clock := t + 1, trace := trace w @ [hdr, Log ''could not send DIF header'']\<rparr>)
     else if \<not> acked e (t + 1)
     then (1, w\<lparr>clock := t + 2, trace := trace w @ [hdr, Sock_recv s 4, Log ''could not recv HDR-ACK'']\<rparr>)
     else if sz = 0
     then (0, w\<lparr>clock := t + 2, trace := trace w @ [hdr, Sock_recv s 4]\<rparr>)
     else if \<not> acked e (t + 3)
     then (1, w\<lparr>clock := t + 4, trace := trace w @ [hdr, Sock_recv s 4, pay]
              @ (if send_ok e (t + 2) then [] else [Log ''could not send DIF data''])
              @ [Sock_recv s 4, Log ''could not recv DIF data ACK'']\<rparr>)
     else (0, w\<lparr>clock := t + 4, trace := trace w @ [hdr, Sock_recv s 4, pay]
              @ (if send_ok e (t + 2) then [] else [Log ''could not send DIF data''])
              @ [Sock_recv s 4]\<rparr>))"
proof -
  define buf0 :: "u8 list" where "buf0 = dif_header sz"
  define body where "body = read_bytes (mem w) (beg (task ctx slot)) (unat sz)"
  have buf0: "[0x48, 0x44, 0x52, 0, 0, 0, 0, 0][4 + 0 := ucast sz, 4 + 1 := ucast (drop_bit 8 sz),
      4 + 2 := ucast (drop_bit 16 sz), 4 + 3 := ucast (drop_bit 24 sz)] = buf0"
    by (simp add: buf0_def dif_header_def le32_bytes)
  obtain r1 w1 where send1: "sock_send e s buf0 w = (r1, w1)"
    by (cases "sock_send e s buf0 w")
  then have r1: "(r1 = - 1) = (\<not> send_ok e t)"
    and w1: "w1 = w\<lparr>clock := t + 1, trace := trace w @ [hdr]\<rparr>"
    by (auto simp: sock_send_def t_def hdr_def buf0_def)
  obtain ret1 buf1 w2 where recv1: "sock_recv e s buf0 4 w1 = (ret1, buf1, w2)"
    by (cases "sock_recv e s buf0 4 w1")
  from sock_recv_check [where e = e and s = s and buf = buf0 and w = w1] recv1
  have chk1: "(ret1 \<noteq> 4 \<or> strcmp buf1 (cstr ''ACK'') \<noteq> Some 0) = (\<not> acked e (t + 1))"
    and w2: "w2 = w\<lparr>clock := t + 2, trace := trace w @ [hdr, Sock_recv s 4]\<rparr>"
    by (simp_all add: w1)
  have m2: "read_bytes (mem w2) (beg (task ctx slot)) (unat sz) = body"
    by (simp add: w2 body_def)
  obtain r2 w3 where send2: "sock_send e s body w2 = (r2, w3)"
    by (cases "sock_send e s body w2")
  then have r2: "(r2 = - 1) = (\<not> send_ok e (t + 2))"
    and w3: "w3 = w\<lparr>clock := t + 3, trace := trace w @ [hdr, Sock_recv s 4, pay]\<rparr>"
    by (auto simp: sock_send_def w2 pay_def body_def)
  define w3' where "w3' = (if r2 = - 1 then log_printf ''could not send DIF data'' w3 else w3)"
  obtain ret2 buf2 w4 where recv2: "sock_recv e s buf1 4 w3' = (ret2, buf2, w4)"
    by (cases "sock_recv e s buf1 4 w3'")
  from sock_recv_check [where e = e and s = s and buf = buf1 and w = w3'] recv2
  have chk2: "(ret2 \<noteq> 4 \<or> strcmp buf2 (cstr ''ACK'') \<noteq> Some 0) = (\<not> acked e (t + 3))"
    and w4: "w4 = w\<lparr>clock := t + 4, trace := trace w @ [hdr, Sock_recv s 4, pay]
              @ (if send_ok e (t + 2) then [] else [Log ''could not send DIF data''])
              @ [Sock_recv s 4]\<rparr>"
    using r2 by (simp_all add: w3'_def w3 log_printf_def)
  have step: "device_daq_send_dif e ctx slot w =
    (if r1 = - 1 then (r1, log_printf ''could not send DIF header'' w1)
     else if ret1 \<noteq> 4 \<or> strcmp buf1 (cstr ''ACK'') \<noteq> Some 0
     then (1, log_printf ''could not recv HDR-ACK'' w2)
     else if sz = 0 then (0, w2)
     else if ret2 \<noteq> 4 \<or> strcmp buf2 (cstr ''ACK'') \<noteq> Some 0
     then (1, log_printf ''could not recv DIF data ACK'' w4)
     else (0, w4))"
    unfolding device_daq_send_dif_def Let_def s_def [symmetric] sz_def [symmetric] buf0
    by (simp only: send1 recv1 m2 send2 recv2 w3'_def [symmetric] split_conv)
  show ?thesis
    unfolding step chk1 chk2
    using r1 by (simp add: w1 w2 w4 log_printf_def)
qed


section \<open>The DIF exchange: acknowledgment, framing, failures\<close>






lemma device_daq_send_dif_NAK:
  "device_daq_send_dif (env_answer_at 1 [0x4E, 0x41, 0x4B, 0]) ctx_window 0 world_init =
     (1, world_init\<lparr>clock := 2,
           trace := [Sock_send 10 [0x48, 0x44, 0x52, 0, 2, 0, 0, 0], Sock_recv 10 4,
                     Log ''could not recv HDR-ACK'']\<rparr>)"
  by (simp add: sample_defs)

text \<open>
  Claim C9 says that the header is followed, when the length is positive, by the bytes of
  the window. The payload is sent only behind the check of the first acknowledgment
  (lines 867 to 873). Slot 0 has the window from 0x1000 to 0x1002, of length 2; the
  header is answered by \<open>N\<close>, \<open>A\<close>, \<open>K\<close>, NUL: the header, with length 2, is the only
  thing sent.
\<close>

theorem device_daq_send_dif_header_without_payload:
  "end' (task ctx_window 0) - beg (task ctx_window 0) = 2
   \<and> sends (trace (snd (device_daq_send_dif (env_answer_at 1 [0x4E, 0x41, 0x4B, 0])
                           ctx_window 0 world_init))) = [[0x48, 0x44, 0x52, 0, 2, 0, 0, 0]]"
  unfolding device_daq_send_dif_NAK
  by (simp add: sends_def ctx_window_def ctx_two_def new_device_def new_task_def)

text \<open>
  Claim C9, amended: for every slot, \<open>device_daq_send_dif\<close> first sends the 8-byte
  header: \<open>H\<close>, \<open>D\<close>, \<open>R\<close>, a zero byte, and the 4-byte little-endian encoding of
  \<open>end - beg\<close>. When that send succeeded, the answer to it passed the acknowledgment
  check and the length is not 0, it then sends the \<open>end - beg\<close> bytes that the memory
  holds from \<open>beg\<close> on, and nothing else; in every other case the header is all it
  sends. For a window with \<open>beg \<le> end\<close> the payload has \<open>end - beg\<close> bytes.
\<close>

theorem device_daq_send_dif_frames:
  "sends (drop (length (trace w)) (trace (snd (device_daq_send_dif e ctx slot w)))) =
     (if send_ok e (clock w) \<and> acked e (clock w + 1)
         \<and> end' (task ctx slot) - beg (task ctx slot) \<noteq> 0
      then [dif_header (end' (task ctx slot) - beg (task ctx slot)),
            read_bytes (mem w) (beg (task ctx slot)) (unat (end' (task ctx slot) - beg (task ctx slot)))]
      else [dif_header (end' (task ctx slot) - beg (task ctx slot))])
   \<and> length (dif_header (end' (task ctx slot) - beg (task ctx slot))) = 8
   \<and> (beg (task ctx slot) \<le> end' (task ctx slot) \<longrightarrow>
       length (read_bytes (mem w) (beg (task ctx slot)) (unat (end' (task ctx slot) - beg (task ctx slot))))
         = unat (end' (task ctx slot)) - unat (beg (task ctx slot)))"
  by (simp add: device_daq_send_dif_cases sends_def dif_header_def le32_def read_bytes_def unat_sub)

theorem device_daq_send_dif_frames_witness:
  "beg (task ctx_window 0) \<le> end' (task ctx_window 0)
   \<and> sends (trace (snd (device_daq_send_dif env_ok ctx_window 0 world_init)))
        = [[0x48, 0x44, 0x52, 0, 2, 0, 0, 0], [0, 0]]
   \<and> unat (end' (task ctx_window 0)) - unat (beg (task ctx_window 0)) = 2"
proof -
  have w: "beg (task ctx_window 0) \<le> end' (task ctx_window 0)"
    and sz: "end' (task ctx_window 0) - beg (task ctx_window 0) = 2"
    and b: "beg (task ctx_window 0) = 0x1000" and en: "end' (task ctx_window 0) = 0x1002"
    by (simp_all add: ctx_window_def ctx_two_def new_device_def new_task_def)
  have a: "send_ok env_ok (clock world_init)" "acked env_ok (clock world_init + 1)"
    by (simp_all add: env_ok_def acked_def cstr_def)
  have h: "dif_header 2 = [0x48, 0x44, 0x52, 0, 2, 0, 0, 0]"
    by (simp add: dif_header_def le32_def upt_rec)
  have p: "read_bytes (mem world_init) 0x1000 (unat (2 :: u32)) = [0, 0]"
    by (simp add: read_bytes_def world_init_def upt_rec)
  have t: "trace world_init = []" by (simp add: world_init_def)
  from device_daq_send_dif_frames [of world_init env_ok ctx_window 0]
  show ?thesis using w a h p t by (simp add: sz b en)
qed

lemma device_daq_send_dif_payload_lost:
  "device_daq_send_dif (env_send_fails_at 2) ctx_window 0 world_init =
    (0, world_init\<lparr>clock := 4,
          trace := [Sock_send 10 [0x48, 0x44, 0x52, 0, 2, 0, 0, 0], Sock_recv 10 4,
                    Sock_send 10 [0, 0], Log ''could not send DIF data'', Sock_recv 10 4]\<rparr>)"
  by (simp add: sample_defs upt_rec)

text \<open>
  Claim C3 says that a failed send of the payload, like every transport failure, makes
  the result of the exchange nonzero and ends the exchange. Slot 0 has a window of two
  bytes, the header is sent and acknowledged, and the send of the payload fails (the
  third observation of the socket). The function logs the failure, goes on to receive,
  is answered by an acknowledgment and returns 0; the streaming loop then leaves
  \<open>rc\<close> of slot 0 at 0. The header send, on the same failure, returns (line 864).
\<close>

theorem device_daq_send_dif_ignores_payload_failure:
  "\<not> send_ok (env_send_fails_at 2) 2
   \<and> device_daq_send_dif (env_send_fails_at 2) ctx_window 0 world_init =
       (0, world_init\<lparr>clock := 4,
             trace := [Sock_send 10 [0x48, 0x44, 0x52, 0, 2, 0, 0, 0], Sock_recv 10 4,
                       Sock_send 10 [0, 0], Log ''could not send DIF data'', Sock_recv 10 4]\<rparr>)
   \<and> rc (task (fst (streaming (env_send_fails_at 2) [0..<NB_RFM] (ctx_window, world_init))) 0) = 0"
  using device_daq_send_dif_payload_lost
  by (simp add: env_send_fails_at_def) (simp add: sample_defs upt_rec)

theorem device_daq_send_dif_ignores_payload_failure_witness:
  "fst (device_daq_send_dif (env_send_fails_at 2) ctx_window 0 world_init) = 0"
  using device_daq_send_dif_ignores_payload_failure by simp

section \<open>The readout loop on the sample inputs\<close>

lemma device_loop_noise_sample:
  "map_option (\<lambda>(ctx, w). (cycle_id ctx, trace w))
     (device_loop_noise (env_cancel_at 17) 3 (ctx_noise, world_init)) =
   Some (1, [Call ''DAQ_reset_buffer'' [], Call ''SYNC_ramfull_ext'' [],
     Call ''device_daq_write_dif'' [0], Call ''device_daq_write_dif'' [1],
     Call ''SYNC_fifo_ack'' [],
     Call ''device_daq_send_dif'' [0],
     Sock_send 10 [0x48, 0x44, 0x52, 0, 1, 0, 0, 0], Sock_recv 10 4,
     Sock_send 10 [0xA0], Sock_recv 10 4,
     Call ''device_daq_send_dif'' [1],
     Sock_send 11 [0x48, 0x44, 0x52, 0, 1, 0, 0, 0], Sock_recv 11 4,
     Sock_send 11 [0xA1], Sock_recv 11 4,
     Call ''SYNC_start_acq'' []])"
  by (simp add: sample_defs numeral_3_eq_3 upt_rec)

text \<open>
  Claim C1 says that in both variants the buffer of every cycle is written to the run
  file before any module is streamed. Here the free-running variant runs one cycle for
  two active modules (the signal arrives when the loop comes back to its head, at
  observation 17) with the run file open as handle 1. Both modules are buffered and both
  are streamed, the cycle counter goes to 1, and the trace holds no
  \<open>Write_buffer\<close>: \<open>device_loop_noise\<close> goes from \<open>SYNC_fifo_ack\<close> (line 826)
  straight to the streaming loop (line 829), where \<open>device_loop_dcc\<close> calls
  \<open>DAQ_write_buffer\<close> (line 758).
\<close>

theorem device_loop_noise_streams_without_writing:
  "daq_file ctx_noise = Some 1
   \<and> map_option (\<lambda>(ctx, w). (cycle_id ctx, trace w))
     (device_loop_noise (env_cancel_at 17) 3 (ctx_noise, world_init)) =
   Some (1, [Call ''DAQ_reset_buffer'' [], Call ''SYNC_ramfull_ext'' [],
     Call ''device_daq_write_dif'' [0], Call ''device_daq_write_dif'' [1],
     Call ''SYNC_fifo_ack'' [],
     Call ''device_daq_send_dif'' [0],
     Sock_send 10 [0x48, 0x44, 0x52, 0, 1, 0, 0, 0], Sock_recv 10 4,
     Sock_send 10 [0xA0], Sock_recv 10 4,
     Call ''device_daq_send_dif'' [1],
     Sock_send 11 [0x48, 0x44, 0x52, 0, 1, 0, 0, 0], Sock_recv 11 4,
     Sock_send 11 [0xA1], Sock_recv 11 4,
     Call ''SYNC_start_acq'' []])"
  unfolding device_loop_noise_sample
  by (simp add: ctx_noise_def ctx_two_def new_device_def)

theorem device_loop_noise_streams_without_writing_witness:
  "device_loop_noise (env_cancel_at 17) 3 (ctx_noise, world_init) \<noteq> None"
  using device_loop_noise_streams_without_writing by auto

text \<open>
  The externally clocked variant on the same input: the buffer of the cycle, which holds
  the bytes of both modules, is written to the run file before the first module is
  streamed.
\<close>

lemma device_loop_dcc_writes_before_streaming:
  "map_option (\<lambda>(ctx, w). (cycle_id ctx, trace w))
     (device_loop_dcc (env_cancel_at 17) 3 (ctx_two, world_init)) =
   Some (1, [Call ''DAQ_reset_buffer'' [],
     Call ''device_daq_write_dif'' [0], Call ''device_daq_write_dif'' [1],
     Call ''SYNC_fifo_ack'' [],
     Write_buffer (Some 1) [0xA0, 0xA1],
     Call ''device_daq_send_dif'' [0],
     Sock_send 10 [0x48, 0x44, 0x52, 0, 1, 0, 0, 0], Sock_recv 10 4,
     Sock_send 10 [0xA0], Sock_recv 10 4,
     Call ''device_daq_send_dif'' [1],
     Sock_send 11 [0x48, 0x44, 0x52, 0, 1, 0, 0, 0], Sock_recv 11 4,
     Sock_send 11 [0xA1], Sock_recv 11 4])"
  by (simp add: sample_defs numeral_3_eq_3 upt_rec)

lemma device_loop_dcc_sample:
  "map_option (\<lambda>(ctx, w). (cycle_id ctx, g_state w, trace w))
     (device_loop_dcc (env_cancel_at 5) 3 (ctx_two, world_init)) =
   Some (1, 0, [Call ''DAQ_reset_buffer'' [],
     Call ''device_daq_write_dif'' [0],
     Call ''SYNC_fifo_ack'' [],
     Write_buffer (Some 1) [0xA0],
     Call ''device_daq_send_dif'' [0],
     Sock_send 10 [0x48, 0x44, 0x52, 0, 1, 0, 0, 0], Sock_recv 10 4,
     Sock_send 10 [0xA0], Sock_recv 10 4,
     Call ''device_daq_send_dif'' [1],
     Sock_send 11 [0x48, 0x44, 0x52, 0, 0, 0, 0, 0], Sock_recv 11 4])"
  by (simp add: sample_defs numeral_3_eq_3 upt_rec)

text \<open>
  Claim C2 says that a cancellation seen while the modules are buffered makes the loop
  exit without writing the cycle. Here the externally clocked variant runs with two
  active modules, and the signal arrives while slot 0 is buffered (observation 5): it is
  seen by the check at line 749. The \<open>break\<close> there leaves the \<open>for\<close> loop,
  so slot 1 is not buffered; the cycle goes on all the same: the buffer, which holds the
  byte of slot 0 alone, is written to the run file, both slots are streamed (slot 1 with
  the window it had before, of length 0), the cycle counter goes to 1, and only then
  does the loop end.
\<close>

theorem device_loop_dcc_writes_cancelled_cycle:
  "sigint (env_cancel_at 5) 5
   \<and> map_option (\<lambda>(ctx, w). (cycle_id ctx, g_state w, trace w))
     (device_loop_dcc (env_cancel_at 5) 3 (ctx_two, world_init)) =
   Some (1, 0, [Call ''DAQ_reset_buffer'' [],
     Call ''device_daq_write_dif'' [0],
     Call ''SYNC_fifo_ack'' [],
     Write_buffer (Some 1) [0xA0],
     Call ''device_daq_send_dif'' [0],
     Sock_send 10 [0x48, 0x44, 0x52, 0, 1, 0, 0, 0], Sock_recv 10 4,
     Sock_send 10 [0xA0], Sock_recv 10 4,
     Call ''device_daq_send_dif'' [1],
     Sock_send 11 [0x48, 0x44, 0x52, 0, 0, 0, 0, 0], Sock_recv 11 4])"
  unfolding device_loop_dcc_sample
  by (simp add: env_cancel_at_def)

theorem device_loop_dcc_writes_cancelled_cycle_witness:
  "device_loop_dcc (env_cancel_at 5) 3 (ctx_two, world_init) \<noteq> None"
  using device_loop_dcc_writes_cancelled_cycle by auto

section \<open>Stopping twice\<close>

text \<open>
  Claim C5 says that a second call of \<open>device_stop\<close> neither fails nor closes the run
  file again. The first call closes the file and sets \<open>daq_file\<close> to \<open>NULL\<close>; the
  second call passes that \<open>NULL\<close> to \<open>fclose\<close> (line 911 has no check, where
  \<open>device_free\<close> has one at line 93), which is undefined behaviour.
\<close>

theorem device_stop_twice_closes_null:
  "device_stop ctx_two world_run =
     Inr (0, ctx_two\<lparr>daq_file := None\<rparr>,
          world_init\<lparr>trace := [Call ''CNT_stop'' [], Call ''CNT_reset'' [],
            Call ''SYNC_reset_fpga'' [], Call ''SYNC_reset_hr'' [], Fclose 1]\<rparr>)
   \<and> device_stop (ctx_two\<lparr>daq_file := None\<rparr>)
        (world_init\<lparr>trace := [Call ''CNT_stop'' [], Call ''CNT_reset'' [],
            Call ''SYNC_reset_fpga'' [], Call ''SYNC_reset_hr'' [], Fclose 1]\<rparr>) = Inl Null_stream"
  by (simp add: device_stop_def fclose_def sample_defs)

theorem device_stop_twice_closes_null_witness:
  "device_stop ctx_two world_run \<noteq> Inl Null_stream"
  using device_stop_twice_closes_null by simp

text \<open>The same for every context and world in which the first call returns.\<close>

lemma device_stop_then_null:
  "device_stop ctx w = Inr (r, ctx', w') \<Longrightarrow> device_stop ctx' w' = Inl Null_stream"
  by (auto simp: device_stop_def fclose_def Let_def split: option.splits if_splits sum.splits)

section \<open>Binding a module to its consumer\<close>

lemma strcmp_strcpy_db: "strcmp (strcpy m (cstr ''db'')) (cstr ''db'') = Some 0"
  by (simp add: strcpy_def cstr_def)

lemma configure_dif_loop_cases:
  "configure_dif_loop ctx d a p js = (r, ctx') \<Longrightarrow>
     (r = 1 \<and> ctx' = ctx \<and> (\<forall>j \<in> set js. dif (task ctx j) \<noteq> d))
   \<or> (r = 0 \<and> (\<exists>pre i post. js = pre @ i # post \<and> (\<forall>j \<in> set pre. dif (task ctx j) \<noteq> d)
          \<and> dif (task ctx i) = d
          \<and> ctx' = ctx\<lparr>task := (task ctx)(i := (task ctx i)\<lparr>addr := Some a, port := p\<rparr>)\<rparr>))"
proof (induction js)
  case Nil
  then show ?case by simp
next
  case (Cons j js)
  show ?case
  proof (cases "dif (task ctx j) = d")
    case True
    with Cons.prems have "r = 0" and "ctx' = ctx\<lparr>task := (task ctx)(j := (task ctx j)\<lparr>addr := Some a, port := p\<rparr>)\<rparr>"
      by (simp_all add: Let_def)
    with True have "j # js = [] @ j # js \<and> (\<forall>j \<in> set []. dif (task ctx j) \<noteq> d)
          \<and> dif (task ctx j) = d
          \<and> ctx' = ctx\<lparr>task := (task ctx)(j := (task ctx j)\<lparr>addr := Some a, port := p\<rparr>)\<rparr>"
      by simp
    with \<open>r = 0\<close> show ?thesis by blast
  next
    case False
    with Cons.prems have "configure_dif_loop ctx d a p js = (r, ctx')" by simp
    from Cons.IH [OF this] show ?thesis
    proof
      assume "r = 1 \<and> ctx' = ctx \<and> (\<forall>j \<in> set js. dif (task ctx j) \<noteq> d)"
      with False show ?thesis by simp
    next
      assume "r = 0 \<and> (\<exists>pre i post. js = pre @ i # post \<and> (\<forall>j \<in> set pre. dif (task ctx j) \<noteq> d)
          \<and> dif (task ctx i) = d
          \<and> ctx' = ctx\<lparr>task := (task ctx)(i := (task ctx i)\<lparr>addr := Some a, port := p\<rparr>)\<rparr>)"
      then obtain pre i post where r0: "r = 0" and js: "js = pre @ i # post"
        and pre: "\<forall>j \<in> set pre. dif (task ctx j) \<noteq> d" and i: "dif (task ctx i) = d"
        and c: "ctx' = ctx\<lparr>task := (task ctx)(i := (task ctx i)\<lparr>addr := Some a, port := p\<rparr>)\<rparr>"
        by blast
      from js pre False have "j # js = (j # pre) @ i # post \<and> (\<forall>j \<in> set (j # pre). dif (task ctx j) \<noteq> d)"
        by simp
      with r0 i c show ?thesis by blast
    qed
  qed
qed

lemma upt_split_at: "[0..<n] = pre @ i # post \<Longrightarrow> i < n \<and> pre = [0..<i]"
proof -
  assume a: "[0..<n] = pre @ i # post"
  then have "length [0..<n] = length (pre @ i # post)" by simp
  then have len: "length pre < n" by simp
  have "i = [0..<n] ! length pre" using a by simp
  with len have i: "i = length pre" by simp
  have "pre = take (length pre) [0..<n]" using a by simp
  then have "pre = [0..<length pre]" using len by (simp add: take_upt)
  with i len show ?thesis by simp
qed

text \<open>
  Claim C10: \<open>device_configure_dif\<close> sets the configuration mode to "db" before it
  looks for the slot, so the mode is "db" after the call whether it returns 0 or 1, and
  \<open>device_init_hrsc\<close> then takes the database branch. It returns 1 exactly when no
  slot carries the dif identifier, and then the mode is all it has changed; when it
  returns 0, the address and the port of the first slot that carries the identifier are
  the only other change.
\<close>

theorem device_configure_dif_sets_db_first:
  "strcmp (cfg_mode (snd (device_configure_dif ctx d a p))) (cstr ''db'') = Some 0
   \<and> (fst (device_configure_dif ctx d a p) = 1 \<or> fst (device_configure_dif ctx d a p) = 0)
   \<and> ((fst (device_configure_dif ctx d a p) = 1) = (\<forall>i<NB_RFM. dif (task ctx i) \<noteq> d))
   \<and> (fst (device_configure_dif ctx d a p) = 1 \<longrightarrow>
        snd (device_configure_dif ctx d a p) = ctx\<lparr>cfg_mode := strcpy (cfg_mode ctx) (cstr ''db'')\<rparr>)
   \<and> (fst (device_configure_dif ctx d a p) = 0 \<longrightarrow>
        (\<exists>i<NB_RFM. dif (task ctx i) = d \<and> (\<forall>j<i. dif (task ctx j) \<noteq> d)
          \<and> snd (device_configure_dif ctx d a p) =
              ctx\<lparr>cfg_mode := strcpy (cfg_mode ctx) (cstr ''db''),
                  task := (task ctx)(i := (task ctx i)\<lparr>addr := Some a, port := p\<rparr>)\<rparr>))
   \<and> device_init_hrsc e (snd (device_configure_dif ctx d a p)) w =
       device_init_hrsc_from_db e (snd (device_configure_dif ctx d a p))
         (fold (\<lambda>hr_addr. hw ''HRSC_set_chip_id'' [hr_addr, hr_addr + 1]) [0..<8]
            (hw ''HRSC_set_shaper_capa'' [0, 3]
               (hw ''HRSC_set_shaper_resis'' [0, unat (rshaper ctx)]
                  (hw ''HRSC_set_bit'' [0, 854, 0] w))))"
proof -
  define base where "base = ctx\<lparr>cfg_mode := strcpy (cfg_mode ctx) (cstr ''db'')\<rparr>"
  obtain r ctx' where res: "configure_dif_loop base d a p [0..<NB_RFM] = (r, ctx')"
    by (cases "configure_dif_loop base d a p [0..<NB_RFM]")
  then have eq: "device_configure_dif ctx d a p = (r, ctx')"
    by (simp add: device_configure_dif_def base_def)
  have tb: "task base = task ctx" and cb: "cfg_mode base = strcpy (cfg_mode ctx) (cstr ''db'')"
    and rb: "rshaper base = rshaper ctx"
    by (simp_all add: base_def)
  have goal: "strcmp (cfg_mode ctx') (cstr ''db'') = Some 0
   \<and> (r = 1 \<or> r = 0)
   \<and> ((r = 1) = (\<forall>i<NB_RFM. dif (task ctx i) \<noteq> d))
   \<and> (r = 1 \<longrightarrow> ctx' = base)
   \<and> (r = 0 \<longrightarrow>
        (\<exists>i<NB_RFM. dif (task ctx i) = d \<and> (\<forall>j<i. dif (task ctx j) \<noteq> d)
          \<and> ctx' = base\<lparr>task := (task ctx)(i := (task ctx i)\<lparr>addr := Some a, port := p\<rparr>)\<rparr>))
   \<and> rshaper ctx' = rshaper ctx"
    using configure_dif_loop_cases [OF res]
  proof
    assume h: "r = 1 \<and> ctx' = base \<and> (\<forall>j \<in> set [0..<NB_RFM]. dif (task base j) \<noteq> d)"
    then have all: "\<forall>i<NB_RFM. dif (task ctx i) \<noteq> d" using tb by simp
    from h cb have "strcmp (cfg_mode ctx') (cstr ''db'') = Some 0"
      by (simp add: strcmp_strcpy_db)
    with h all rb show ?thesis by simp
  next
    assume "r = 0 \<and> (\<exists>pre i post. [0..<NB_RFM] = pre @ i # post \<and> (\<forall>j \<in> set pre. dif (task base j) \<noteq> d)
          \<and> dif (task base i) = d
          \<and> ctx' = base\<lparr>task := (task base)(i := (task base i)\<lparr>addr := Some a, port := p\<rparr>)\<rparr>)"
    then obtain pre i post where r0: "r = 0" and js: "[0..<NB_RFM] = pre @ i # post"
      and pre: "\<forall>j \<in> set pre. dif (task base j) \<noteq> d" and i: "dif (task base i) = d"
      and c: "ctx' = base\<lparr>task := (task base)(i := (task base i)\<lparr>addr := Some a, port := p\<rparr>)\<rparr>"
      by blast
    from upt_split_at [OF js] have iN: "i < NB_RFM" and p: "pre = [0..<i]" by simp_all
    from pre p tb have first: "\<forall>j<i. dif (task ctx j) \<noteq> d" by simp
    from i tb have di: "dif (task ctx i) = d" by simp
    have ne: "\<not> (\<forall>i<NB_RFM. dif (task ctx i) \<noteq> d)" using iN di by blast
    have ex: "\<exists>i<NB_RFM. dif (task ctx i) = d \<and> (\<forall>j<i. dif (task ctx j) \<noteq> d)
          \<and> ctx' = base\<lparr>task := (task ctx)(i := (task ctx i)\<lparr>addr := Some a, port := p\<rparr>)\<rparr>"
      using iN di first c tb by auto
    have "cfg_mode ctx' = cfg_mode base" and rs: "rshaper ctx' = rshaper ctx" using c rb by simp_all
    with cb have "strcmp (cfg_mode ctx') (cstr ''db'') = Some 0"
      by (simp add: strcmp_strcpy_db)
    with r0 ne ex rs show ?thesis by simp
  qed
  then have db: "strcmp (cfg_mode ctx') (cstr ''db'') = Some 0" and rs: "rshaper ctx' = rshaper ctx"
    by simp_all
  have hrsc: "device_init_hrsc e ctx' w =
       device_init_hrsc_from_db e ctx'
         (fold (\<lambda>hr_addr. hw ''HRSC_set_chip_id'' [hr_addr, hr_addr + 1]) [0..<8]
            (hw ''HRSC_set_shaper_capa'' [0, 3]
               (hw ''HRSC_set_shaper_resis'' [0, unat (rshaper ctx)]
                  (hw ''HRSC_set_bit'' [0, 854, 0] w))))"
    unfolding device_init_hrsc_def Let_def rs by (simp only: db refl if_True)
  from goal hrsc show ?thesis unfolding eq fst_conv snd_conv base_def by blast
qed

theorem device_configure_dif_sets_db_first_witness:
  "fst (device_configure_dif new_device 9 ''10.0.0.1'' 8877) = 1
   \<and> strcmp (cfg_mode new_device) (cstr ''db'') \<noteq> Some 0
   \<and> strcmp (cfg_mode (snd (device_configure_dif new_device 9 ''10.0.0.1'' 8877))) (cstr ''db'') = Some 0
   \<and> snd (device_configure_dif new_device 9 ''10.0.0.1'' 8877)
        = new_device\<lparr>cfg_mode := strcpy (cfg_mode new_device) (cstr ''db'')\<rparr>
   \<and> fst (device_configure_dif ctx_two 2 ''10.0.0.1'' 8877) = 0
   \<and> snd (device_configure_dif ctx_two 2 ''10.0.0.1'' 8877)
        = ctx_two\<lparr>cfg_mode := strcpy (cfg_mode ctx_two) (cstr ''db''),
             task := (task ctx_two)(1 := (task ctx_two 1)\<lparr>addr := Some ''10.0.0.1'', port := 8877\<rparr>)\<rparr>"
proof -
  have none: "\<forall>i<NB_RFM. dif (task new_device i) \<noteq> 9"
    by (simp add: new_device_def new_task_def)
  have csv: "strcmp (cfg_mode new_device) (cstr ''db'') \<noteq> Some 0"
    by (simp add: new_device_def strcpy_def cstr_def)
  note t1 = device_configure_dif_sets_db_first [of new_device 9 "''10.0.0.1''" 8877 env_ok world_init]
  from t1 none have r1: "fst (device_configure_dif new_device 9 ''10.0.0.1'' 8877) = 1" by blast
  with t1 have s1: "snd (device_configure_dif new_device 9 ''10.0.0.1'' 8877)
        = new_device\<lparr>cfg_mode := strcpy (cfg_mode new_device) (cstr ''db'')\<rparr>" by blast
  from t1 have m1: "strcmp (cfg_mode (snd (device_configure_dif new_device 9 ''10.0.0.1'' 8877)))
      (cstr ''db'') = Some 0" by blast
  have d: "dif (task ctx_two i) = of_nat i + 1" for i
    by (simp add: ctx_two_def new_device_def new_task_def)
  have d0: "dif (task ctx_two 0) \<noteq> 2" and d1: "dif (task ctx_two 1) = 2"
    by (simp_all add: d)
  note t2 = device_configure_dif_sets_db_first [of ctx_two 2 "''10.0.0.1''" 8877 env_ok world_init]
  have "(1 :: nat) < NB_RFM" by (simp add: NB_RFM_def)
  with d1 have "\<not> (\<forall>i<NB_RFM. dif (task ctx_two i) \<noteq> 2)" by blast
  with t2 have r2: "fst (device_configure_dif ctx_two 2 ''10.0.0.1'' 8877) = 0" by blast
  with t2 obtain i where i: "dif (task ctx_two i) = 2" "\<forall>j<i. dif (task ctx_two j) \<noteq> 2"
    and s2: "snd (device_configure_dif ctx_two 2 ''10.0.0.1'' 8877) =
              ctx_two\<lparr>cfg_mode := strcpy (cfg_mode ctx_two) (cstr ''db''),
                  task := (task ctx_two)(i := (task ctx_two i)\<lparr>addr := Some ''10.0.0.1'', port := 8877\<rparr>)\<rparr>"
    by blast
  have "i = 1"
  proof (rule ccontr)
    assume "i \<noteq> 1"
    then have "i = 0 \<or> 1 < i" by auto
    then show False using i d0 d1 by auto
  qed
  with s2 r1 s1 m1 r2 csv show ?thesis by simp
qed

section \<open>Streaming: a failed module does not stop the others\<close>

lemma called_append: "called f (xs @ ys) = called f xs @ called f ys"
  by (induction f xs rule: called.induct) simp_all

lemma device_daq_send_dif_trace:
  "\<exists>tr. trace (snd (device_daq_send_dif e ctx slot w)) = trace w @ tr \<and> called f tr = []"
  by (simp add: device_daq_send_dif_cases)

lemma streaming_rfm_on: "rfm_on (fst (streaming e js cw)) = rfm_on (fst cw)"
proof (induction js arbitrary: cw)
  case Nil
  then show ?case by simp
next
  case (Cons j js)
  obtain ctx w where cw: "cw = (ctx, w)" by (cases cw)
  show ?case
    unfolding cw by (simp add: Cons.IH Let_def split: prod.splits)
qed

lemma streaming_append: "streaming e (xs @ ys) cw = streaming e ys (streaming e xs cw)"
proof (induction xs arbitrary: cw)
  case Nil
  then show ?case by simp
next
  case (Cons x xs)
  obtain ctx w where cw: "cw = (ctx, w)" by (cases cw)
  show ?case
    unfolding cw by (simp add: Cons.IH Let_def split: prod.splits)
qed

lemma streaming_rc_other:
  "k \<notin> set js \<Longrightarrow> rc (task (fst (streaming e js cw)) k) = rc (task (fst cw) k)"
proof (induction js arbitrary: cw)
  case Nil
  then show ?case by simp
next
  case (Cons j js)
  obtain ctx w where cw: "cw = (ctx, w)" by (cases cw)
  from Cons.prems have kj: "k \<noteq> j" and k: "k \<notin> set js" by simp_all
  show ?case
    unfolding cw using kj by (simp add: Cons.IH [OF k] Let_def split: prod.splits)
qed

lemma streaming_called:
  "\<exists>tr. trace (snd (streaming e js (ctx, w))) = trace w @ tr
     \<and> called ''device_daq_send_dif'' tr
         = map (\<lambda>i. [i]) (filter (\<lambda>i. (drop_bit i (rfm_on ctx) AND 1) \<noteq> 0) js)"
proof (induction js arbitrary: ctx w)
  case Nil
  then show ?case by simp
next
  case (Cons j js)
  show ?case
  proof (cases "(drop_bit j (rfm_on ctx) AND 1) = 0")
    case True
    with Cons.IH [of ctx w] show ?thesis by simp
  next
    case False
    define w0 where "w0 = hw ''device_daq_send_dif'' [j] w"
    obtain err w1 where call: "device_daq_send_dif e ctx j w0 = (err, w1)"
      by (cases "device_daq_send_dif e ctx j w0")
    from device_daq_send_dif_trace [of e ctx j w0 "''device_daq_send_dif''"] call
    obtain tr1 where tr1: "trace w1 = trace w0 @ tr1" "called ''device_daq_send_dif'' tr1 = []"
      by auto
    define ctx2 where "ctx2 = (if err \<noteq> 0 then ctx\<lparr>task := (task ctx)(j := (task ctx j)\<lparr>rc := err\<rparr>)\<rparr> else ctx)"
    define w2 where "w2 = (if err \<noteq> 0 then log_printf ''could not send dif data'' w1 else w1)"
    have step: "streaming e (j # js) (ctx, w) = streaming e js (ctx2, w2)"
      using False call by (simp add: w0_def ctx2_def w2_def)
    have on: "rfm_on ctx2 = rfm_on ctx" by (simp add: ctx2_def)
    have "\<exists>tr2. trace w2 = trace w @ tr2 \<and> called ''device_daq_send_dif'' tr2 = [[j]]"
    proof (cases "err \<noteq> 0")
      case True
      then have "trace w2 = trace w @ (Call ''device_daq_send_dif'' [j] # tr1 @ [Log ''could not send dif data''])"
        using tr1 by (simp add: w2_def w0_def hw_def log_printf_def)
      moreover have "called ''device_daq_send_dif'' (Call ''device_daq_send_dif'' [j] # tr1 @ [Log ''could not send dif data'']) = [[j]]"
        using tr1 by (simp add: called_append)
      ultimately show ?thesis by blast
    next
      case False
      then have "trace w2 = trace w @ (Call ''device_daq_send_dif'' [j] # tr1)"
        using tr1 by (simp add: w2_def w0_def hw_def)
      moreover have "called ''device_daq_send_dif'' (Call ''device_daq_send_dif'' [j] # tr1) = [[j]]"
        using tr1 by simp
      ultimately show ?thesis by blast
    qed
    then obtain tr2 where tr2: "trace w2 = trace w @ tr2" "called ''device_daq_send_dif'' tr2 = [[j]]"
      by blast
    from Cons.IH [of ctx2 w2] obtain tr3 where
      tr3: "trace (snd (streaming e js (ctx2, w2))) = trace w2 @ tr3"
        "called ''device_daq_send_dif'' tr3
           = map (\<lambda>i. [i]) (filter (\<lambda>i. (drop_bit i (rfm_on ctx2) AND 1) \<noteq> 0) js)"
      by blast
    have "trace (snd (streaming e (j # js) (ctx, w))) = trace w @ (tr2 @ tr3)"
      using step tr2 tr3 by simp
    moreover have "called ''device_daq_send_dif'' (tr2 @ tr3)
         = map (\<lambda>i. [i]) (filter (\<lambda>i. (drop_bit i (rfm_on ctx) AND 1) \<noteq> 0) (j # js))"
      using tr2 tr3 on False by (simp add: called_append)
    ultimately show ?thesis by blast
  qed
qed

lemma read_g_state_g: "read_g_state e w = (g, w') \<Longrightarrow> g_state w' = g"
  by (auto simp: read_g_state_def Let_def)

lemma dcc_cycle_Brk: "dcc_cycle e n cw = Some (Brk, ctx', w') \<Longrightarrow> g_state w' = 0"
  by (auto simp: dcc_cycle_def Let_def dest: read_g_state_g split: prod.splits option.splits if_splits)

lemma noise_cycle_Brk: "noise_cycle e n cw = Some (Brk, ctx', w') \<Longrightarrow> g_state w' = 0"
  by (auto simp: noise_cycle_def Let_def dest: read_g_state_g split: prod.splits option.splits if_splits)

lemma streaming_cycle_id: "cycle_id (fst (streaming e js cw)) = cycle_id (fst cw)"
proof (induction js arbitrary: cw)
  case Nil
  then show ?case by simp
next
  case (Cons j js)
  obtain ctx w where cw: "cw = (ctx, w)" by (cases cw)
  show ?case
    unfolding cw by (simp add: Cons.IH Let_def split: prod.splits)
qed

lemma buffering_cycle_id: "cycle_id (fst (buffering e js cw)) = cycle_id (fst cw)"
proof (induction js arbitrary: cw)
  case Nil
  then show ?case by simp
next
  case (Cons j js)
  obtain ctx w where cw: "cw = (ctx, w)" by (cases cw)
  show ?case
    unfolding cw by (simp add: Cons.IH device_daq_write_dif_def Let_def split: prod.splits)
qed

lemma streaming_cycle_id_eq:
  "streaming e js (ctx, w) = (ctx', w') \<Longrightarrow> cycle_id ctx' = cycle_id ctx"
  using streaming_cycle_id [of e js "(ctx, w)"] by simp

lemma buffering_cycle_id_eq:
  "buffering e js (ctx, w) = (ctx', w') \<Longrightarrow> cycle_id ctx' = cycle_id ctx"
  using buffering_cycle_id [of e js "(ctx, w)"] by simp

lemma dcc_cycle_Nxt:
  "dcc_cycle e n (ctx, w) = Some (Nxt, ctx', w') \<Longrightarrow> cycle_id ctx' = cycle_id ctx + 1"
  by (auto simp: dcc_cycle_def Let_def split: prod.splits option.splits if_splits
      dest!: streaming_cycle_id_eq buffering_cycle_id_eq)

lemma noise_cycle_Nxt:
  "noise_cycle e n (ctx, w) = Some (Nxt, ctx', w') \<Longrightarrow> cycle_id ctx' = cycle_id ctx + 1"
  by (auto simp: noise_cycle_def Let_def split: prod.splits option.splits if_splits
      dest!: streaming_cycle_id_eq buffering_cycle_id_eq)

lemma device_loop_dcc_exit: "device_loop_dcc e n cw = Some (ctx', w') \<Longrightarrow> g_state w' \<noteq> 1"
proof (induction n arbitrary: cw)
  case 0
  then show ?case by simp
next
  case (Suc n)
  obtain ctx w where cw: "cw = (ctx, w)" by (cases cw)
  obtain g w1 where g: "read_g_state e w = (g, w1)" by (cases "read_g_state e w")
  show ?case
  proof (cases "g = 1")
    case False
    with Suc.prems cw g have "w' = w1" by simp
    with read_g_state_g [OF g] False show ?thesis by simp
  next
    case True
    show ?thesis
    proof (cases "dcc_cycle e n (ctx, w1)")
      case None
      with Suc.prems cw g True show ?thesis by simp
    next
      case (Some res)
      obtain ctl ctx2 w2 where res: "res = (ctl, ctx2, w2)" by (cases res)
      show ?thesis
      proof (cases ctl)
        case Brk
        with Suc.prems cw g True Some res have "w' = w2" by simp
        with dcc_cycle_Brk [of e n "(ctx, w1)" ctx2 w2] Some res Brk show ?thesis by simp
      next
        case Nxt
        with Suc.prems cw g True Some res have "device_loop_dcc e n (ctx2, w2) = Some (ctx', w')"
          by simp
        then show ?thesis by (rule Suc.IH)
      qed
    qed
  qed
qed


lemma device_loop_noise_exit: "device_loop_noise e n cw = Some (ctx', w') \<Longrightarrow> g_state w' \<noteq> 1"
proof (induction n arbitrary: cw)
  case 0
  then show ?case by simp
next
  case (Suc n)
  obtain ctx w where cw: "cw = (ctx, w)" by (cases cw)
  obtain g w1 where g: "read_g_state e w = (g, w1)" by (cases "read_g_state e w")
  show ?case
  proof (cases "g = 1")
    case False
    with Suc.prems cw g have "w' = w1" by simp
    with read_g_state_g [OF g] False show ?thesis by simp
  next
    case True
    show ?thesis
    proof (cases "noise_cycle e n (ctx, w1)")
      case None
      with Suc.prems cw g True show ?thesis by simp
    next
      case (Some res)
      obtain ctl ctx2 w2 where res: "res = (ctl, ctx2, w2)" by (cases res)
      show ?thesis
      proof (cases ctl)
        case Brk
        with Suc.prems cw g True Some res have "w' = w2" by simp
        with noise_cycle_Brk [of e n "(ctx, w1)" ctx2 w2] Some res Brk show ?thesis by simp
      next
        case Nxt
        with Suc.prems cw g True Some res have "device_loop_noise e n (ctx2, w2) = Some (ctx', w')"
          by simp
        then show ?thesis by (rule Suc.IH)
      qed
    qed
  qed
qed


lemma streaming_g_state: "g_state (snd (streaming e js (ctx, w))) = g_state w"
proof (induction js arbitrary: ctx w)
  case Nil
  then show ?case by simp
next
  case (Cons j js)
  obtain err w1 where call: "device_daq_send_dif e ctx j (hw ''device_daq_send_dif'' [j] w) = (err, w1)"
    by (cases "device_daq_send_dif e ctx j (hw ''device_daq_send_dif'' [j] w)")
  have "g_state (snd (device_daq_send_dif e ctx j (hw ''device_daq_send_dif'' [j] w))) = g_state w"
    by (simp add: device_daq_send_dif_cases hw_def)
  with call have g: "g_state w1 = g_state w" by simp
  show ?case
    using g by (simp add: call Cons.IH Let_def log_printf_def)
qed

lemma dcc_cycle_streams:
  assumes "wait_flag SYNC_fpga_ro e n (DAQ_reset_buffer e v) = Some wb"
    and "read_g_state e wb = (g1, wc)" and "g1 \<noteq> 0"
    and "wait_flag SYNC_fifo_ready e n wc = Some wd"
    and "read_g_state e wd = (g2, we)" and "g2 \<noteq> 0"
    and "buffering e [0..<NB_RFM] (c, we) = (ctx, wx)"
    and "DAQ_write_buffer e (daq_file ctx) (hw ''SYNC_fifo_ack'' [] wx) = w"
  shows "dcc_cycle e n (c, v) =
           Some (Nxt, (fst (streaming e [0..<NB_RFM] (ctx, w)))\<lparr>cycle_id := cycle_id c + 1\<rparr>,
                 snd (streaming e [0..<NB_RFM] (ctx, w)))"
proof -
  have id: "cycle_id (fst (streaming e [0..<NB_RFM] (ctx, w))) = cycle_id c"
    using streaming_cycle_id [of e "[0..<NB_RFM]" "(ctx, w)"]
      buffering_cycle_id_eq [OF assms(7)] by simp
  show ?thesis
    unfolding dcc_cycle_def Let_def
    by (simp only: prod.case option.case assms if_False id split_def fst_conv snd_conv)
qed

lemma noise_cycle_streams:
  assumes "wait_flag SYNC_ramfull e n (DAQ_reset_buffer e v) = Some wb"
    and "read_g_state e wb = (g1, wc)" and "g1 \<noteq> 0"
    and "wait_flag SYNC_fifo_ready e n (hw ''SYNC_ramfull_ext'' [] wc) = Some wd"
    and "read_g_state e wd = (g2, we)" and "g2 \<noteq> 0"
    and "buffering e [0..<NB_RFM] (c, we) = (ctx, wx)"
    and "hw ''SYNC_fifo_ack'' [] wx = w"
  shows "noise_cycle e n (c, v) =
           Some (Nxt, (fst (streaming e [0..<NB_RFM] (ctx, w)))\<lparr>cycle_id := cycle_id c + 1\<rparr>,
                 hw ''SYNC_start_acq'' [] (snd (streaming e [0..<NB_RFM] (ctx, w))))"
proof -
  have id: "cycle_id (fst (streaming e [0..<NB_RFM] (ctx, w))) = cycle_id c"
    using streaming_cycle_id [of e "[0..<NB_RFM]" "(ctx, w)"]
      buffering_cycle_id_eq [OF assms(7)] by simp
  show ?thesis
    unfolding noise_cycle_def Let_def
    by (simp only: prod.case option.case assms if_False id split_def fst_conv snd_conv)
qed

lemma device_loop_dcc_head:
  "read_g_state e v = (g, vn) \<Longrightarrow>
     device_loop_dcc e (Suc m) (c, v) =
       (if g = 1
        then case dcc_cycle e m (c, vn) of
               None \<Rightarrow> None
             | Some (Brk, cw) \<Rightarrow> Some cw
             | Some (Nxt, cw) \<Rightarrow> device_loop_dcc e m cw
        else Some (c, vn))"
  by simp

lemma device_loop_noise_head:
  "read_g_state e v = (g, vn) \<Longrightarrow>
     device_loop_noise e (Suc m) (c, v) =
       (if g = 1
        then case noise_cycle e m (c, vn) of
               None \<Rightarrow> None
             | Some (Brk, cw) \<Rightarrow> Some cw
             | Some (Nxt, cw) \<Rightarrow> device_loop_noise e m cw
        else Some (c, vn))"
  by simp

lemma dcc_after_streaming:
  assumes head: "read_g_state e v0 = (1, v)"
    and "wait_flag SYNC_fpga_ro e n (DAQ_reset_buffer e v) = Some wb"
    and "read_g_state e wb = (g1, wc)" and "g1 \<noteq> 0"
    and "wait_flag SYNC_fifo_ready e n wc = Some wd"
    and "read_g_state e wd = (g2, we)" and "g2 \<noteq> 0"
    and "buffering e [0..<NB_RFM] (c, we) = (ctx, wx)"
    and "DAQ_write_buffer e (daq_file ctx) (hw ''SYNC_fifo_ack'' [] wx) = w"
  shows "dcc_cycle e n (c, v) =
           Some (Nxt, (fst (streaming e [0..<NB_RFM] (ctx, w)))\<lparr>cycle_id := cycle_id c + 1\<rparr>,
                 snd (streaming e [0..<NB_RFM] (ctx, w)))
    \<and> device_loop_dcc e (Suc n) (c, v0) =
        device_loop_dcc e n
          ((fst (streaming e [0..<NB_RFM] (ctx, w)))\<lparr>cycle_id := cycle_id c + 1\<rparr>,
           snd (streaming e [0..<NB_RFM] (ctx, w)))
    \<and> (\<forall>m g vn. n = Suc m \<and> read_g_state e (snd (streaming e [0..<NB_RFM] (ctx, w))) = (g, vn) \<longrightarrow>
          device_loop_dcc e (Suc n) (c, v0) =
            (if g = 1
             then case dcc_cycle e m
                         ((fst (streaming e [0..<NB_RFM] (ctx, w)))\<lparr>cycle_id := cycle_id c + 1\<rparr>, vn) of
                    None \<Rightarrow> None
                  | Some (Brk, cw) \<Rightarrow> Some cw
                  | Some (Nxt, cw) \<Rightarrow> device_loop_dcc e m cw
             else Some ((fst (streaming e [0..<NB_RFM] (ctx, w)))\<lparr>cycle_id := cycle_id c + 1\<rparr>, vn)))"
proof -
  let ?c = "(fst (streaming e [0..<NB_RFM] (ctx, w)))\<lparr>cycle_id := cycle_id c + 1\<rparr>"
  let ?w = "snd (streaming e [0..<NB_RFM] (ctx, w))"
  have cyc: "dcc_cycle e n (c, v) = Some (Nxt, ?c, ?w)"
    by (rule dcc_cycle_streams [OF assms(2-9)])
  have loop: "device_loop_dcc e (Suc n) (c, v0) = device_loop_dcc e n (?c, ?w)"
    by (simp add: head cyc)
  have nxt: "device_loop_dcc e (Suc n) (c, v0) =
            (if g = 1
             then case dcc_cycle e m (?c, vn) of
                    None \<Rightarrow> None
                  | Some (Brk, cw) \<Rightarrow> Some cw
                  | Some (Nxt, cw) \<Rightarrow> device_loop_dcc e m cw
             else Some (?c, vn))"
    if "n = Suc m" and "read_g_state e ?w = (g, vn)" for m g vn
    using loop device_loop_dcc_head [OF that(2), of m ?c] by (simp only: that(1))
  from cyc loop nxt show ?thesis by blast
qed

lemma noise_after_streaming:
  assumes head: "read_g_state e v0 = (1, v)"
    and "wait_flag SYNC_ramfull e n (DAQ_reset_buffer e v) = Some wb"
    and "read_g_state e wb = (g1, wc)" and "g1 \<noteq> 0"
    and "wait_flag SYNC_fifo_ready e n (hw ''SYNC_ramfull_ext'' [] wc) = Some wd"
    and "read_g_state e wd = (g2, we)" and "g2 \<noteq> 0"
    and "buffering e [0..<NB_RFM] (c, we) = (ctx, wx)"
    and "hw ''SYNC_fifo_ack'' [] wx = w"
  shows "noise_cycle e n (c, v) =
           Some (Nxt, (fst (streaming e [0..<NB_RFM] (ctx, w)))\<lparr>cycle_id := cycle_id c + 1\<rparr>,
                 hw ''SYNC_start_acq'' [] (snd (streaming e [0..<NB_RFM] (ctx, w))))
    \<and> device_loop_noise e (Suc n) (c, v0) =
        device_loop_noise e n
          ((fst (streaming e [0..<NB_RFM] (ctx, w)))\<lparr>cycle_id := cycle_id c + 1\<rparr>,
           hw ''SYNC_start_acq'' [] (snd (streaming e [0..<NB_RFM] (ctx, w))))
    \<and> (\<forall>m g vn. n = Suc m
           \<and> read_g_state e (hw ''SYNC_start_acq'' [] (snd (streaming e [0..<NB_RFM] (ctx, w)))) = (g, vn) \<longrightarrow>
          device_loop_noise e (Suc n) (c, v0) =
            (if g = 1
             then case noise_cycle e m
                         ((fst (streaming e [0..<NB_RFM] (ctx, w)))\<lparr>cycle_id := cycle_id c + 1\<rparr>, vn) of
                    None \<Rightarrow> None
                  | Some (Brk, cw) \<Rightarrow> Some cw
                  | Some (Nxt, cw) \<Rightarrow> device_loop_noise e m cw
             else Some ((fst (streaming e [0..<NB_RFM] (ctx, w)))\<lparr>cycle_id := cycle_id c + 1\<rparr>, vn)))"
proof -
  let ?c = "(fst (streaming e [0..<NB_RFM] (ctx, w)))\<lparr>cycle_id := cycle_id c + 1\<rparr>"
  let ?w = "hw ''SYNC_start_acq'' [] (snd (streaming e [0..<NB_RFM] (ctx, w)))"
  have cyc: "noise_cycle e n (c, v) = Some (Nxt, ?c, ?w)"
    by (rule noise_cycle_streams [OF assms(2-9)])
  have loop: "device_loop_noise e (Suc n) (c, v0) = device_loop_noise e n (?c, ?w)"
    by (simp add: head cyc)
  have nxt: "device_loop_noise e (Suc n) (c, v0) =
            (if g = 1
             then case noise_cycle e m (?c, vn) of
                    None \<Rightarrow> None
                  | Some (Brk, cw) \<Rightarrow> Some cw
                  | Some (Nxt, cw) \<Rightarrow> device_loop_noise e m cw
             else Some (?c, vn))"
    if "n = Suc m" and "read_g_state e ?w = (g, vn)" for m g vn
    using loop device_loop_noise_head [OF that(2), of m ?c] by (simp only: that(1))
  from cyc loop nxt show ?thesis by blast
qed

text \<open>
  Claim C6: when \<open>device_daq_send_dif\<close> returns a nonzero \<open>err\<close> for the active slot
  \<open>k\<close>, the streaming loop stores \<open>err\<close> in \<open>task[k].rc\<close>, where it still is when
  the loop ends, and goes on with the slots behind \<open>k\<close>: over the whole loop
  \<open>device_daq_send_dif\<close> is called for exactly the active slots in ascending order,
  behind slot \<open>k\<close> for exactly the active slots above \<open>k\<close>.

  That streaming loop is the one of the cycle, in both variants. Take a pass through the
  body of \<open>device_loop_dcc\<close> (of \<open>device_loop_noise\<close>) from the context \<open>c\<close>, after the
  head of the run loop has read \<open>g_state\<close> as 1 in the world \<open>v0\<close>: a pass whose two
  waits end, whose two checks of \<open>g_state\<close> find it nonzero, and whose buffering loop,
  acknowledgment (and write to the run file, in \<open>device_loop_dcc\<close>) end in the state
  \<open>(ctx, w)\<close> in which the streaming loop meets the failure above. That pass reaches its
  end: it returns \<open>Nxt\<close> with the state the streaming loop has left (after
  \<open>SYNC_start_acq\<close>, in \<open>device_loop_noise\<close>), the cycle counter of \<open>c\<close> advanced by
  one, \<open>err\<close> in \<open>task[k].rc\<close>, and \<open>g_state\<close> as it was when the streaming loop
  began. The run loop goes on from that state; when its head reads \<open>g_state\<close> as 1
  there, what it does next is the body of the next cycle, and it returns there only when
  it reads another value.

  Besides, in both variants, whatever happens: a pass through the body is cut short only
  with \<open>g_state\<close> at 0, a pass that reaches its end has advanced the cycle counter by
  one, and the run loop returns only once \<open>g_state\<close> is no longer 1.
\<close>

theorem streaming_failure_is_recorded_and_isolated:
  assumes k: "k < NB_RFM" and active: "(drop_bit k (rfm_on ctx) AND 1) \<noteq> 0"
    and before: "streaming e [0..<k] (ctx, w) = (ctx0, w0)"
    and call: "device_daq_send_dif e ctx0 k (hw ''device_daq_send_dif'' [k] w0) = (err, w1)"
    and failed: "err \<noteq> 0"
  shows "streaming e [0..<NB_RFM] (ctx, w) =
           streaming e [Suc k..<NB_RFM]
             (ctx0\<lparr>task := (task ctx0)(k := (task ctx0 k)\<lparr>rc := err\<rparr>)\<rparr>,
              log_printf ''could not send dif data'' w1)
    \<and> rc (task (fst (streaming e [0..<NB_RFM] (ctx, w))) k) = err
    \<and> called ''device_daq_send_dif''
         (drop (length (trace w)) (trace (snd (streaming e [0..<NB_RFM] (ctx, w)))))
        = map (\<lambda>i. [i]) (filter (\<lambda>i. (drop_bit i (rfm_on ctx) AND 1) \<noteq> 0) [0..<NB_RFM])
    \<and> called ''device_daq_send_dif''
         (drop (length (trace w1) + 1) (trace (snd (streaming e [0..<NB_RFM] (ctx, w)))))
        = map (\<lambda>i. [i]) (filter (\<lambda>i. (drop_bit i (rfm_on ctx) AND 1) \<noteq> 0) [Suc k..<NB_RFM])
    \<and> (\<forall>n c v0 v wb g1 wc wd g2 we wx.
           read_g_state e v0 = (1, v)
         \<and> wait_flag SYNC_fpga_ro e n (DAQ_reset_buffer e v) = Some wb
         \<and> read_g_state e wb = (g1, wc) \<and> g1 \<noteq> 0
         \<and> wait_flag SYNC_fifo_ready e n wc = Some wd
         \<and> read_g_state e wd = (g2, we) \<and> g2 \<noteq> 0
         \<and> buffering e [0..<NB_RFM] (c, we) = (ctx, wx)
         \<and> DAQ_write_buffer e (daq_file ctx) (hw ''SYNC_fifo_ack'' [] wx) = w
         \<longrightarrow>
           dcc_cycle e n (c, v) = Some (Nxt, (fst (streaming e [0..<NB_RFM] (ctx, w)))\<lparr>cycle_id := cycle_id c + 1\<rparr>, snd (streaming e [0..<NB_RFM] (ctx, w)))
         \<and> rc (task ((fst (streaming e [0..<NB_RFM] (ctx, w)))\<lparr>cycle_id := cycle_id c + 1\<rparr>) k) = err
         \<and> g_state (snd (streaming e [0..<NB_RFM] (ctx, w))) = g_state w
         \<and> device_loop_dcc e (Suc n) (c, v0) = device_loop_dcc e n ((fst (streaming e [0..<NB_RFM] (ctx, w)))\<lparr>cycle_id := cycle_id c + 1\<rparr>, snd (streaming e [0..<NB_RFM] (ctx, w)))
         \<and> (\<forall>m g vn. n = Suc m \<and> read_g_state e (snd (streaming e [0..<NB_RFM] (ctx, w))) = (g, vn) \<longrightarrow>
               device_loop_dcc e (Suc n) (c, v0) =
                 (if g = 1
                  then case dcc_cycle e m ((fst (streaming e [0..<NB_RFM] (ctx, w)))\<lparr>cycle_id := cycle_id c + 1\<rparr>, vn) of
                         None \<Rightarrow> None
                       | Some (Brk, cw) \<Rightarrow> Some cw
                       | Some (Nxt, cw) \<Rightarrow> device_loop_dcc e m cw
                  else Some ((fst (streaming e [0..<NB_RFM] (ctx, w)))\<lparr>cycle_id := cycle_id c + 1\<rparr>, vn))))
    \<and> (\<forall>n c v0 v wb g1 wc wd g2 we wx.
           read_g_state e v0 = (1, v)
         \<and> wait_flag SYNC_ramfull e n (DAQ_reset_buffer e v) = Some wb
         \<and> read_g_state e wb = (g1, wc) \<and> g1 \<noteq> 0
         \<and> wait_flag SYNC_fifo_ready e n (hw ''SYNC_ramfull_ext'' [] wc) = Some wd
         \<and> read_g_state e wd = (g2, we) \<and> g2 \<noteq> 0
         \<and> buffering e [0..<NB_RFM] (c, we) = (ctx, wx)
         \<and> hw ''SYNC_fifo_ack'' [] wx = w
         \<longrightarrow>
           noise_cycle e n (c, v) = Some (Nxt, (fst (streaming e [0..<NB_RFM] (ctx, w)))\<lparr>cycle_id := cycle_id c + 1\<rparr>, hw ''SYNC_start_acq'' [] (snd (streaming e [0..<NB_RFM] (ctx, w))))
         \<and> rc (task ((fst (streaming e [0..<NB_RFM] (ctx, w)))\<lparr>cycle_id := cycle_id c + 1\<rparr>) k) = err
         \<and> g_state (hw ''SYNC_start_acq'' [] (snd (streaming e [0..<NB_RFM] (ctx, w)))) = g_state w
         \<and> device_loop_noise e (Suc n) (c, v0) = device_loop_noise e n ((fst (streaming e [0..<NB_RFM] (ctx, w)))\<lparr>cycle_id := cycle_id c + 1\<rparr>, hw ''SYNC_start_acq'' [] (snd (streaming e [0..<NB_RFM] (ctx, w))))
         \<and> (\<forall>m g vn. n = Suc m \<and> read_g_state e (hw ''SYNC_start_acq'' [] (snd (streaming e [0..<NB_RFM] (ctx, w)))) = (g, vn) \<longrightarrow>
               device_loop_noise e (Suc n) (c, v0) =
                 (if g = 1
                  then case noise_cycle e m ((fst (streaming e [0..<NB_RFM] (ctx, w)))\<lparr>cycle_id := cycle_id c + 1\<rparr>, vn) of
                         None \<Rightarrow> None
                       | Some (Brk, cw) \<Rightarrow> Some cw
                       | Some (Nxt, cw) \<Rightarrow> device_loop_noise e m cw
                  else Some ((fst (streaming e [0..<NB_RFM] (ctx, w)))\<lparr>cycle_id := cycle_id c + 1\<rparr>, vn))))
    \<and> (\<forall>n cw ctx' w'. dcc_cycle e n cw = Some (Brk, ctx', w') \<longrightarrow> g_state w' = 0)
    \<and> (\<forall>n cw ctx' w'. noise_cycle e n cw = Some (Brk, ctx', w') \<longrightarrow> g_state w' = 0)
    \<and> (\<forall>n c v ctx' w'. dcc_cycle e n (c, v) = Some (Nxt, ctx', w') \<longrightarrow> cycle_id ctx' = cycle_id c + 1)
    \<and> (\<forall>n c v ctx' w'. noise_cycle e n (c, v) = Some (Nxt, ctx', w') \<longrightarrow> cycle_id ctx' = cycle_id c + 1)
    \<and> (\<forall>n cw ctx' w'. device_loop_dcc e n cw = Some (ctx', w') \<longrightarrow> g_state w' \<noteq> 1)
    \<and> (\<forall>n cw ctx' w'. device_loop_noise e n cw = Some (ctx', w') \<longrightarrow> g_state w' \<noteq> 1)"
proof -
  define ctx1 where "ctx1 = ctx0\<lparr>task := (task ctx0)(k := (task ctx0 k)\<lparr>rc := err\<rparr>)\<rparr>"
  define w2 where "w2 = log_printf ''could not send dif data'' w1"
  have split: "[0..<NB_RFM] = [0..<k] @ k # [Suc k..<NB_RFM]"
    using k by (metis le0 upt_conv_Cons upt_add_eq_append le_add_diff_inverse less_imp_le_nat)
  have on0: "rfm_on ctx0 = rfm_on ctx"
    using streaming_rfm_on [of e "[0..<k]" "(ctx, w)"] before by simp
  have on1: "rfm_on ctx1 = rfm_on ctx" by (simp add: ctx1_def on0)
  have step: "streaming e (k # [Suc k..<NB_RFM]) (ctx0, w0) = streaming e [Suc k..<NB_RFM] (ctx1, w2)"
    using active on0 call failed by (simp add: ctx1_def w2_def)
  have whole: "streaming e [0..<NB_RFM] (ctx, w) = streaming e [Suc k..<NB_RFM] (ctx1, w2)"
    by (subst split) (simp only: streaming_append before step)
  have "k \<notin> set [Suc k..<NB_RFM]" by simp
  from streaming_rc_other [OF this, of e "(ctx1, w2)"]
  have rc: "rc (task (fst (streaming e [0..<NB_RFM] (ctx, w))) k) = err"
    by (simp add: whole ctx1_def)
  from streaming_called [of e "[0..<NB_RFM]" ctx w]
  have all: "called ''device_daq_send_dif''
         (drop (length (trace w)) (trace (snd (streaming e [0..<NB_RFM] (ctx, w)))))
        = map (\<lambda>i. [i]) (filter (\<lambda>i. (drop_bit i (rfm_on ctx) AND 1) \<noteq> 0) [0..<NB_RFM])"
    by auto
  have len: "length (trace w2) = length (trace w1) + 1"
    by (simp add: w2_def log_printf_def)
  from streaming_called [of e "[Suc k..<NB_RFM]" ctx1 w2]
  have rest: "called ''device_daq_send_dif''
         (drop (length (trace w1) + 1) (trace (snd (streaming e [0..<NB_RFM] (ctx, w)))))
        = map (\<lambda>i. [i]) (filter (\<lambda>i. (drop_bit i (rfm_on ctx) AND 1) \<noteq> 0) [Suc k..<NB_RFM])"
    unfolding whole len [symmetric] on1 by auto
  have rc': "rc (task ((fst (streaming e [0..<NB_RFM] (ctx, w)))\<lparr>cycle_id := x\<rparr>) k) = err" for x
    using rc by simp
  have g: "g_state (snd (streaming e [0..<NB_RFM] (ctx, w))) = g_state w"
    by (rule streaming_g_state)
  have g': "g_state (hw ''SYNC_start_acq'' [] (snd (streaming e [0..<NB_RFM] (ctx, w)))) = g_state w"
    using g by (simp add: hw_def)
  have dcc: "\<forall>n c v0 v wb g1 wc wd g2 we wx.
           read_g_state e v0 = (1, v)
         \<and> wait_flag SYNC_fpga_ro e n (DAQ_reset_buffer e v) = Some wb
         \<and> read_g_state e wb = (g1, wc) \<and> g1 \<noteq> 0
         \<and> wait_flag SYNC_fifo_ready e n wc = Some wd
         \<and> read_g_state e wd = (g2, we) \<and> g2 \<noteq> 0
         \<and> buffering e [0..<NB_RFM] (c, we) = (ctx, wx)
         \<and> DAQ_write_buffer e (daq_file ctx) (hw ''SYNC_fifo_ack'' [] wx) = w
         \<longrightarrow>
           dcc_cycle e n (c, v) = Some (Nxt, (fst (streaming e [0..<NB_RFM] (ctx, w)))\<lparr>cycle_id := cycle_id c + 1\<rparr>, snd (streaming e [0..<NB_RFM] (ctx, w)))
         \<and> rc (task ((fst (streaming e [0..<NB_RFM] (ctx, w)))\<lparr>cycle_id := cycle_id c + 1\<rparr>) k) = err
         \<and> g_state (snd (streaming e [0..<NB_RFM] (ctx, w))) = g_state w
         \<and> device_loop_dcc e (Suc n) (c, v0) = device_loop_dcc e n ((fst (streaming e [0..<NB_RFM] (ctx, w)))\<lparr>cycle_id := cycle_id c + 1\<rparr>, snd (streaming e [0..<NB_RFM] (ctx, w)))
         \<and> (\<forall>m g vn. n = Suc m \<and> read_g_state e (snd (streaming e [0..<NB_RFM] (ctx, w))) = (g, vn) \<longrightarrow>
               device_loop_dcc e (Suc n) (c, v0) =
                 (if g = 1
                  then case dcc_cycle e m ((fst (streaming e [0..<NB_RFM] (ctx, w)))\<lparr>cycle_id := cycle_id c + 1\<rparr>, vn) of
                         None \<Rightarrow> None
                       | Some (Brk, cw) \<Rightarrow> Some cw
                       | Some (Nxt, cw) \<Rightarrow> device_loop_dcc e m cw
                  else Some ((fst (streaming e [0..<NB_RFM] (ctx, w)))\<lparr>cycle_id := cycle_id c + 1\<rparr>, vn)))"
  proof (intro allI impI, elim conjE)
    fix n c v0 v wb g1 wc wd g2 we wx
    assume h: "read_g_state e v0 = (1, v)"
      "wait_flag SYNC_fpga_ro e n (DAQ_reset_buffer e v) = Some wb"
      "read_g_state e wb = (g1, wc)" "g1 \<noteq> 0"
      "wait_flag SYNC_fifo_ready e n wc = Some wd"
      "read_g_state e wd = (g2, we)" "g2 \<noteq> 0"
      "buffering e [0..<NB_RFM] (c, we) = (ctx, wx)"
      "DAQ_write_buffer e (daq_file ctx) (hw ''SYNC_fifo_ack'' [] wx) = w"
    from dcc_after_streaming [OF h] rc' [of "cycle_id c + 1"] g
    show "dcc_cycle e n (c, v) = Some (Nxt, (fst (streaming e [0..<NB_RFM] (ctx, w)))\<lparr>cycle_id := cycle_id c + 1\<rparr>, snd (streaming e [0..<NB_RFM] (ctx, w)))
         \<and> rc (task ((fst (streaming e [0..<NB_RFM] (ctx, w)))\<lparr>cycle_id := cycle_id c + 1\<rparr>) k) = err
         \<and> g_state (snd (streaming e [0..<NB_RFM] (ctx, w))) = g_state w
         \<and> device_loop_dcc e (Suc n) (c, v0) = device_loop_dcc e n ((fst (streaming e [0..<NB_RFM] (ctx, w)))\<lparr>cycle_id := cycle_id c + 1\<rparr>, snd (streaming e [0..<NB_RFM] (ctx, w)))
         \<and> (\<forall>m g vn. n = Suc m \<and> read_g_state e (snd (streaming e [0..<NB_RFM] (ctx, w))) = (g, vn) \<longrightarrow>
               device_loop_dcc e (Suc n) (c, v0) =
                 (if g = 1
                  then case dcc_cycle e m ((fst (streaming e [0..<NB_RFM] (ctx, w)))\<lparr>cycle_id := cycle_id c + 1\<rparr>, vn) of
                         None \<Rightarrow> None
                       | Some (Brk, cw) \<Rightarrow> Some cw
                       | Some (Nxt, cw) \<Rightarrow> device_loop_dcc e m cw
                  else Some ((fst (streaming e [0..<NB_RFM] (ctx, w)))\<lparr>cycle_id := cycle_id c + 1\<rparr>, vn)))"
      by (intro conjI) (elim conjE, assumption)+
  qed
  have noise: "\<forall>n c v0 v wb g1 wc wd g2 we wx.
           read_g_state e v0 = (1, v)
         \<and> wait_flag SYNC_ramfull e n (DAQ_reset_buffer e v) = Some wb
         \<and> read_g_state e wb = (g1, wc) \<and> g1 \<noteq> 0
         \<and> wait_flag SYNC_fifo_ready e n (hw ''SYNC_ramfull_ext'' [] wc) = Some wd
         \<and> read_g_state e wd = (g2, we) \<and> g2 \<noteq> 0
         \<and> buffering e [0..<NB_RFM] (c, we) = (ctx, wx)
         \<and> hw ''SYNC_fifo_ack'' [] wx = w
         \<longrightarrow>
           noise_cycle e n (c, v) = Some (Nxt, (fst (streaming e [0..<NB_RFM] (ctx, w)))\<lparr>cycle_id := cycle_id c + 1\<rparr>, hw ''SYNC_start_acq'' [] (snd (streaming e [0..<NB_RFM] (ctx, w))))
         \<and> rc (task ((fst (streaming e [0..<NB_RFM] (ctx, w)))\<lparr>cycle_id := cycle_id c + 1\<rparr>) k) = err
         \<and> g_state (hw ''SYNC_start_acq'' [] (snd (streaming e [0..<NB_RFM] (ctx, w)))) = g_state w
         \<and> device_loop_noise e (Suc n) (c, v0) = device_loop_noise e n ((fst (streaming e [0..<NB_RFM] (ctx, w)))\<lparr>cycle_id := cycle_id c + 1\<rparr>, hw ''SYNC_start_acq'' [] (snd (streaming e [0..<NB_RFM] (ctx, w))))
         \<and> (\<forall>m g vn. n = Suc m \<and> read_g_state e (hw ''SYNC_start_acq'' [] (snd (streaming e [0..<NB_RFM] (ctx, w)))) = (g, vn) \<longrightarrow>
               device_loop_noise e (Suc n) (c, v0) =
                 (if g = 1
                  then case noise_cycle e m ((fst (streaming e [0..<NB_RFM] (ctx, w)))\<lparr>cycle_id := cycle_id c + 1\<rparr>, vn) of
                         None \<Rightarrow> None
                       | Some (Brk, cw) \<Rightarrow> Some cw
                       | Some (Nxt, cw) \<Rightarrow> device_loop_noise e m cw
                  else Some ((fst (streaming e [0..<NB_RFM] (ctx, w)))\<lparr>cycle_id := cycle_id c + 1\<rparr>, vn)))"
  proof (intro allI impI, elim conjE)
    fix n c v0 v wb g1 wc wd g2 we wx
    assume h: "read_g_state e v0 = (1, v)"
      "wait_flag SYNC_ramfull e n (DAQ_reset_buffer e v) = Some wb"
      "read_g_state e wb = (g1, wc)" "g1 \<noteq> 0"
      "wait_flag SYNC_fifo_ready e n (hw ''SYNC_ramfull_ext'' [] wc) = Some wd"
      "read_g_state e wd = (g2, we)" "g2 \<noteq> 0"
      "buffering e [0..<NB_RFM] (c, we) = (ctx, wx)"
      "hw ''SYNC_fifo_ack'' [] wx = w"
    from noise_after_streaming [OF h] rc' [of "cycle_id c + 1"] g'
    show "noise_cycle e n (c, v) = Some (Nxt, (fst (streaming e [0..<NB_RFM] (ctx, w)))\<lparr>cycle_id := cycle_id c + 1\<rparr>, hw ''SYNC_start_acq'' [] (snd (streaming e [0..<NB_RFM] (ctx, w))))
         \<and> rc (task ((fst (streaming e [0..<NB_RFM] (ctx, w)))\<lparr>cycle_id := cycle_id c + 1\<rparr>) k) = err
         \<and> g_state (hw ''SYNC_start_acq'' [] (snd (streaming e [0..<NB_RFM] (ctx, w)))) = g_state w
         \<and> device_loop_noise e (Suc n) (c, v0) = device_loop_noise e n ((fst (streaming e [0..<NB_RFM] (ctx, w)))\<lparr>cycle_id := cycle_id c + 1\<rparr>, hw ''SYNC_start_acq'' [] (snd (streaming e [0..<NB_RFM] (ctx, w))))
         \<and> (\<forall>m g vn. n = Suc m \<and> read_g_state e (hw ''SYNC_start_acq'' [] (snd (streaming e [0..<NB_RFM] (ctx, w)))) = (g, vn) \<longrightarrow>
               device_loop_noise e (Suc n) (c, v0) =
                 (if g = 1
                  then case noise_cycle e m ((fst (streaming e [0..<NB_RFM] (ctx, w)))\<lparr>cycle_id := cycle_id c + 1\<rparr>, vn) of
                         None \<Rightarrow> None
                       | Some (Brk, cw) \<Rightarrow> Some cw
                       | Some (Nxt, cw) \<Rightarrow> device_loop_noise e m cw
                  else Some ((fst (streaming e [0..<NB_RFM] (ctx, w)))\<lparr>cycle_id := cycle_id c + 1\<rparr>, vn)))"
      by (intro conjI) (elim conjE, assumption)+
  qed
  have loops: "(\<forall>n cw ctx' w'. dcc_cycle e n cw = Some (Brk, ctx', w') \<longrightarrow> g_state w' = 0)
    \<and> (\<forall>n cw ctx' w'. noise_cycle e n cw = Some (Brk, ctx', w') \<longrightarrow> g_state w' = 0)
    \<and> (\<forall>n c v ctx' w'. dcc_cycle e n (c, v) = Some (Nxt, ctx', w') \<longrightarrow> cycle_id ctx' = cycle_id c + 1)
    \<and> (\<forall>n c v ctx' w'. noise_cycle e n (c, v) = Some (Nxt, ctx', w') \<longrightarrow> cycle_id ctx' = cycle_id c + 1)
    \<and> (\<forall>n cw ctx' w'. device_loop_dcc e n cw = Some (ctx', w') \<longrightarrow> g_state w' \<noteq> 1)
    \<and> (\<forall>n cw ctx' w'. device_loop_noise e n cw = Some (ctx', w') \<longrightarrow> g_state w' \<noteq> 1)"
    by (intro conjI allI impI)
      (erule dcc_cycle_Brk noise_cycle_Brk dcc_cycle_Nxt noise_cycle_Nxt
        device_loop_dcc_exit device_loop_noise_exit)+
  from whole rc all rest dcc noise loops show ?thesis
    unfolding ctx1_def w2_def by (intro conjI) (elim conjE, assumption)+
qed

lemmas refused_once_defs = sample_defs env_refused_once_def world_at_def ctx_buffered_def
  world_buffered_def world_streaming_dcc_def world_streaming_noise_def

lemma wait_flag_numeral:
  "wait_flag flag e (numeral i) w =
     (let (v, w) = flag e w
      in if v = 0 then
           (let (g, w) = read_g_state e w
            in if g = 1 then wait_flag flag e (pred_numeral i) w else Some w)
         else Some w)"
  by (simp add: numeral_eq_Suc)

lemma device_loop_dcc_refused_once:
  "map_option (\<lambda>(ctx, w). (cycle_id ctx, rc (task ctx 0), rc (task ctx 1), g_state w,
       called ''device_daq_send_dif'' (trace w)))
     (device_loop_dcc env_refused_once 3 (ctx_two, world_init)) =
   Some (2, 1, 0, 0, [[0], [1], [0], [1]])"
  by (simp add: sample_defs env_refused_once_def numeral_3_eq_3 upt_rec)

lemma device_loop_noise_refused_once:
  "map_option (\<lambda>(ctx, w). (cycle_id ctx, rc (task ctx 0), rc (task ctx 1), g_state w,
       called ''device_daq_send_dif'' (trace w)))
     (device_loop_noise env_refused_once 3 (ctx_noise, world_init)) =
   Some (2, 1, 0, 0, [[0], [1], [0], [1]])"
  by (simp add: sample_defs env_refused_once_def numeral_3_eq_3 upt_rec)

lemma dcc_refused_once_reaches_streaming:
  "read_g_state env_refused_once world_init = (1, world_at 1 [])
   \<and> wait_flag SYNC_fpga_ro env_refused_once 2 (DAQ_reset_buffer env_refused_once (world_at 1 []))
       = Some (world_at 2 [Call ''DAQ_reset_buffer'' []])
   \<and> read_g_state env_refused_once (world_at 2 [Call ''DAQ_reset_buffer'' []])
       = (1, world_at 3 [Call ''DAQ_reset_buffer'' []])
   \<and> (1 :: u8) \<noteq> 0
   \<and> wait_flag SYNC_fifo_ready env_refused_once 2 (world_at 3 [Call ''DAQ_reset_buffer'' []])
       = Some (world_at 4 [Call ''DAQ_reset_buffer'' []])
   \<and> read_g_state env_refused_once (world_at 4 [Call ''DAQ_reset_buffer'' []])
       = (1, world_at 5 [Call ''DAQ_reset_buffer'' []])
   \<and> (1 :: u8) \<noteq> 0
   \<and> buffering env_refused_once [0..<NB_RFM] (ctx_two, world_at 5 [Call ''DAQ_reset_buffer'' []])
       = (ctx_buffered ctx_two,
          world_buffered [Call ''DAQ_reset_buffer'' [], Call ''device_daq_write_dif'' [0],
            Call ''device_daq_write_dif'' [1]])
   \<and> DAQ_write_buffer env_refused_once (daq_file (ctx_buffered ctx_two))
        (hw ''SYNC_fifo_ack'' []
           (world_buffered [Call ''DAQ_reset_buffer'' [], Call ''device_daq_write_dif'' [0],
              Call ''device_daq_write_dif'' [1]]))
       = world_streaming_dcc"
  by (simp add: refused_once_defs wait_flag_numeral upt_rec)

lemma noise_refused_once_reaches_streaming:
  "read_g_state env_refused_once world_init = (1, world_at 1 [])
   \<and> wait_flag SYNC_ramfull env_refused_once 2 (DAQ_reset_buffer env_refused_once (world_at 1 []))
       = Some (world_at 2 [Call ''DAQ_reset_buffer'' []])
   \<and> read_g_state env_refused_once (world_at 2 [Call ''DAQ_reset_buffer'' []])
       = (1, world_at 3 [Call ''DAQ_reset_buffer'' []])
   \<and> (1 :: u8) \<noteq> 0
   \<and> wait_flag SYNC_fifo_ready env_refused_once 2
        (hw ''SYNC_ramfull_ext'' [] (world_at 3 [Call ''DAQ_reset_buffer'' []]))
       = Some (world_at 4 [Call ''DAQ_reset_buffer'' [], Call ''SYNC_ramfull_ext'' []])
   \<and> read_g_state env_refused_once
        (world_at 4 [Call ''DAQ_reset_buffer'' [], Call ''SYNC_ramfull_ext'' []])
       = (1, world_at 5 [Call ''DAQ_reset_buffer'' [], Call ''SYNC_ramfull_ext'' []])
   \<and> (1 :: u8) \<noteq> 0
   \<and> buffering env_refused_once [0..<NB_RFM]
        (ctx_noise, world_at 5 [Call ''DAQ_reset_buffer'' [], Call ''SYNC_ramfull_ext'' []])
       = (ctx_buffered ctx_noise,
          world_buffered [Call ''DAQ_reset_buffer'' [], Call ''SYNC_ramfull_ext'' [],
            Call ''device_daq_write_dif'' [0], Call ''device_daq_write_dif'' [1]])
   \<and> hw ''SYNC_fifo_ack'' []
        (world_buffered [Call ''DAQ_reset_buffer'' [], Call ''SYNC_ramfull_ext'' [],
           Call ''device_daq_write_dif'' [0], Call ''device_daq_write_dif'' [1]])
       = world_streaming_noise"
  by (simp add: refused_once_defs wait_flag_numeral upt_rec)

lemma device_daq_send_dif_refused_dcc:
  "fst (device_daq_send_dif env_refused_once (ctx_buffered ctx_two) 0
          (hw ''device_daq_send_dif'' [0] world_streaming_dcc)) = 1"
  by (simp add: refused_once_defs)

lemma device_daq_send_dif_refused_noise:
  "fst (device_daq_send_dif env_refused_once (ctx_buffered ctx_noise) 0
          (hw ''device_daq_send_dif'' [0] world_streaming_noise)) = 1"
  by (simp add: refused_once_defs)

theorem streaming_failure_is_recorded_and_isolated_witness:
  "(0 :: nat) < NB_RFM
   \<and> (drop_bit 0 (rfm_on (ctx_buffered ctx_two)) AND 1) \<noteq> 0
   \<and> streaming env_refused_once [0..<0] (ctx_buffered ctx_two, world_streaming_dcc) = (ctx_buffered ctx_two, world_streaming_dcc)
   \<and> fst (device_daq_send_dif env_refused_once (ctx_buffered ctx_two) 0
          (hw ''device_daq_send_dif'' [0] world_streaming_dcc)) = 1
   \<and> (drop_bit 0 (rfm_on (ctx_buffered ctx_noise)) AND 1) \<noteq> 0
   \<and> streaming env_refused_once [0..<0] (ctx_buffered ctx_noise, world_streaming_noise) = (ctx_buffered ctx_noise, world_streaming_noise)
   \<and> fst (device_daq_send_dif env_refused_once (ctx_buffered ctx_noise) 0
          (hw ''device_daq_send_dif'' [0] world_streaming_noise)) = 1
   \<and> (1 :: int) \<noteq> 0
   \<and> (read_g_state env_refused_once world_init = (1, world_at 1 [])
   \<and> wait_flag SYNC_fpga_ro env_refused_once 2 (DAQ_reset_buffer env_refused_once (world_at 1 []))
       = Some (world_at 2 [Call ''DAQ_reset_buffer'' []])
   \<and> read_g_state env_refused_once (world_at 2 [Call ''DAQ_reset_buffer'' []])
       = (1, world_at 3 [Call ''DAQ_reset_buffer'' []])
   \<and> (1 :: u8) \<noteq> 0
   \<and> wait_flag SYNC_fifo_ready env_refused_once 2 (world_at 3 [Call ''DAQ_reset_buffer'' []])
       = Some (world_at 4 [Call ''DAQ_reset_buffer'' []])
   \<and> read_g_state env_refused_once (world_at 4 [Call ''DAQ_reset_buffer'' []])
       = (1, world_at 5 [Call ''DAQ_reset_buffer'' []])
   \<and> (1 :: u8) \<noteq> 0
   \<and> buffering env_refused_once [0..<NB_RFM] (ctx_two, world_at 5 [Call ''DAQ_reset_buffer'' []])
       = (ctx_buffered ctx_two,
          world_buffered [Call ''DAQ_reset_buffer'' [], Call ''device_daq_write_dif'' [0],
            Call ''device_daq_write_dif'' [1]])
   \<and> DAQ_write_buffer env_refused_once (daq_file (ctx_buffered ctx_two))
        (hw ''SYNC_fifo_ack'' []
           (world_buffered [Call ''DAQ_reset_buffer'' [], Call ''device_daq_write_dif'' [0],
              Call ''device_daq_write_dif'' [1]]))
       = world_streaming_dcc)
   \<and> (read_g_state env_refused_once world_init = (1, world_at 1 [])
   \<and> wait_flag SYNC_ramfull env_refused_once 2 (DAQ_reset_buffer env_refused_once (world_at 1 []))
       = Some (world_at 2 [Call ''DAQ_reset_buffer'' []])
   \<and> read_g_state env_refused_once (world_at 2 [Call ''DAQ_reset_buffer'' []])
       = (1, world_at 3 [Call ''DAQ_reset_buffer'' []])
   \<and> (1 :: u8) \<noteq> 0
   \<and> wait_flag SYNC_fifo_ready env_refused_once 2
        (hw ''SYNC_ramfull_ext'' [] (world_at 3 [Call ''DAQ_reset_buffer'' []]))
       = Some (world_at 4 [Call ''DAQ_reset_buffer'' [], Call ''SYNC_ramfull_ext'' []])
   \<and> read_g_state env_refused_once
        (world_at 4 [Call ''DAQ_reset_buffer'' [], Call ''SYNC_ramfull_ext'' []])
       = (1, world_at 5 [Call ''DAQ_reset_buffer'' [], Call ''SYNC_ramfull_ext'' []])
   \<and> (1 :: u8) \<noteq> 0
   \<and> buffering env_refused_once [0..<NB_RFM]
        (ctx_noise, world_at 5 [Call ''DAQ_reset_buffer'' [], Call ''SYNC_ramfull_ext'' []])
       = (ctx_buffered ctx_noise,
          world_buffered [Call ''DAQ_reset_buffer'' [], Call ''SYNC_ramfull_ext'' [],
            Call ''device_daq_write_dif'' [0], Call ''device_daq_write_dif'' [1]])
   \<and> hw ''SYNC_fifo_ack'' []
        (world_buffered [Call ''DAQ_reset_buffer'' [], Call ''SYNC_ramfull_ext'' [],
           Call ''device_daq_write_dif'' [0], Call ''device_daq_write_dif'' [1]])
       = world_streaming_noise)
   \<and> dcc_cycle env_refused_once 2 (ctx_two, world_at 1 []) =
       Some (Nxt, (fst (streaming env_refused_once [0..<NB_RFM] (ctx_buffered ctx_two, world_streaming_dcc)))\<lparr>cycle_id := cycle_id ctx_two + 1\<rparr>,
             snd (streaming env_refused_once [0..<NB_RFM] (ctx_buffered ctx_two, world_streaming_dcc)))
   \<and> rc (task ((fst (streaming env_refused_once [0..<NB_RFM] (ctx_buffered ctx_two, world_streaming_dcc)))\<lparr>cycle_id := cycle_id ctx_two + 1\<rparr>) 0) = 1
   \<and> g_state (snd (streaming env_refused_once [0..<NB_RFM] (ctx_buffered ctx_two, world_streaming_dcc))) = g_state world_streaming_dcc
   \<and> device_loop_dcc env_refused_once (Suc 2) (ctx_two, world_init) =
       device_loop_dcc env_refused_once 2
         ((fst (streaming env_refused_once [0..<NB_RFM] (ctx_buffered ctx_two, world_streaming_dcc)))\<lparr>cycle_id := cycle_id ctx_two + 1\<rparr>,
          snd (streaming env_refused_once [0..<NB_RFM] (ctx_buffered ctx_two, world_streaming_dcc)))
   \<and> noise_cycle env_refused_once 2 (ctx_noise, world_at 1 []) =
       Some (Nxt, (fst (streaming env_refused_once [0..<NB_RFM] (ctx_buffered ctx_noise, world_streaming_noise)))\<lparr>cycle_id := cycle_id ctx_noise + 1\<rparr>,
             hw ''SYNC_start_acq'' [] (snd (streaming env_refused_once [0..<NB_RFM] (ctx_buffered ctx_noise, world_streaming_noise))))
   \<and> rc (task ((fst (streaming env_refused_once [0..<NB_RFM] (ctx_buffered ctx_noise, world_streaming_noise)))\<lparr>cycle_id := cycle_id ctx_noise + 1\<rparr>) 0) = 1
   \<and> g_state (hw ''SYNC_start_acq'' [] (snd (streaming env_refused_once [0..<NB_RFM] (ctx_buffered ctx_noise, world_streaming_noise)))) = g_state world_streaming_noise
   \<and> device_loop_noise env_refused_once (Suc 2) (ctx_noise, world_init) =
       device_loop_noise env_refused_once 2
         ((fst (streaming env_refused_once [0..<NB_RFM] (ctx_buffered ctx_noise, world_streaming_noise)))\<lparr>cycle_id := cycle_id ctx_noise + 1\<rparr>,
          hw ''SYNC_start_acq'' [] (snd (streaming env_refused_once [0..<NB_RFM] (ctx_buffered ctx_noise, world_streaming_noise))))
   \<and> (2 :: nat) = Suc 1
   \<and> fst (read_g_state env_refused_once
          (snd (streaming env_refused_once [0..<NB_RFM] (ctx_buffered ctx_two, world_streaming_dcc)))) = 1
   \<and> device_loop_dcc env_refused_once (Suc 2) (ctx_two, world_init) =
       (case dcc_cycle env_refused_once 1
               ((fst (streaming env_refused_once [0..<NB_RFM] (ctx_buffered ctx_two, world_streaming_dcc)))\<lparr>cycle_id := cycle_id ctx_two + 1\<rparr>,
                snd (read_g_state env_refused_once
          (snd (streaming env_refused_once [0..<NB_RFM] (ctx_buffered ctx_two, world_streaming_dcc))))) of
          None \<Rightarrow> None
        | Some (Brk, cw) \<Rightarrow> Some cw
        | Some (Nxt, cw) \<Rightarrow> device_loop_dcc env_refused_once 1 cw)
   \<and> fst (read_g_state env_refused_once
          (hw ''SYNC_start_acq'' [] (snd (streaming env_refused_once [0..<NB_RFM] (ctx_buffered ctx_noise, world_streaming_noise))))) = 1
   \<and> device_loop_noise env_refused_once (Suc 2) (ctx_noise, world_init) =
       (case noise_cycle env_refused_once 1
               ((fst (streaming env_refused_once [0..<NB_RFM] (ctx_buffered ctx_noise, world_streaming_noise)))\<lparr>cycle_id := cycle_id ctx_noise + 1\<rparr>,
                snd (read_g_state env_refused_once
          (hw ''SYNC_start_acq'' [] (snd (streaming env_refused_once [0..<NB_RFM] (ctx_buffered ctx_noise, world_streaming_noise)))))) of
          None \<Rightarrow> None
        | Some (Brk, cw) \<Rightarrow> Some cw
        | Some (Nxt, cw) \<Rightarrow> device_loop_noise env_refused_once 1 cw)
   \<and> map_option (\<lambda>(ctx, w). (cycle_id ctx, rc (task ctx 0), rc (task ctx 1), g_state w,
         called ''device_daq_send_dif'' (trace w)))
       (device_loop_dcc env_refused_once 3 (ctx_two, world_init)) =
      Some (2, 1, 0, 0, [[0], [1], [0], [1]])
   \<and> map_option (\<lambda>(ctx, w). (cycle_id ctx, rc (task ctx 0), rc (task ctx 1), g_state w,
         called ''device_daq_send_dif'' (trace w)))
       (device_loop_noise env_refused_once 3 (ctx_noise, world_init)) =
      Some (2, 1, 0, 0, [[0], [1], [0], [1]])"
proof -
  have k: "(0 :: nat) < NB_RFM" by (simp add: NB_RFM_def)
  have ad: "(drop_bit 0 (rfm_on (ctx_buffered ctx_two)) AND 1) \<noteq> 0"
    and an: "(drop_bit 0 (rfm_on (ctx_buffered ctx_noise)) AND 1) \<noteq> 0"
    by (simp_all add: ctx_buffered_def ctx_noise_def ctx_two_def new_device_def)
  have bd: "streaming env_refused_once [0..<0] (ctx_buffered ctx_two, world_streaming_dcc) = (ctx_buffered ctx_two, world_streaming_dcc)"
    and bn: "streaming env_refused_once [0..<0] (ctx_buffered ctx_noise, world_streaming_noise) = (ctx_buffered ctx_noise, world_streaming_noise)"
    by simp_all
  note sd = device_daq_send_dif_refused_dcc
  note sn = device_daq_send_dif_refused_noise
  have cd: "device_daq_send_dif env_refused_once (ctx_buffered ctx_two) 0
          (hw ''device_daq_send_dif'' [0] world_streaming_dcc) =
       (1, snd (device_daq_send_dif env_refused_once (ctx_buffered ctx_two) 0
          (hw ''device_daq_send_dif'' [0] world_streaming_dcc)))"
    using sd by (simp only: prod_eq_iff fst_conv snd_conv simp_thms)
  have cn: "device_daq_send_dif env_refused_once (ctx_buffered ctx_noise) 0
          (hw ''device_daq_send_dif'' [0] world_streaming_noise) =
       (1, snd (device_daq_send_dif env_refused_once (ctx_buffered ctx_noise) 0
          (hw ''device_daq_send_dif'' [0] world_streaming_noise)))"
    using sn by (simp only: prod_eq_iff fst_conv snd_conv simp_thms)
  have ne: "(1 :: int) \<noteq> 0" by simp
  note hd = dcc_refused_once_reaches_streaming
  note hn = noise_refused_once_reaches_streaming
  note td = streaming_failure_is_recorded_and_isolated [OF k ad bd cd ne]
  note tn = streaming_failure_is_recorded_and_isolated [OF k an bn cn ne]
  note d = td [THEN conjunct2, THEN conjunct2, THEN conjunct2, THEN conjunct2, THEN conjunct1,
    rule_format, OF hd]
  note n = tn [THEN conjunct2, THEN conjunct2, THEN conjunct2, THEN conjunct2, THEN conjunct2,
    THEN conjunct1, rule_format, OF hn]
  note d1 = d [THEN conjunct1]
  note d2 = d [THEN conjunct2, THEN conjunct1]
  note d3 = d [THEN conjunct2, THEN conjunct2, THEN conjunct1]
  note d4 = d [THEN conjunct2, THEN conjunct2, THEN conjunct2, THEN conjunct1]
  note n1 = n [THEN conjunct1]
  note n2 = n [THEN conjunct2, THEN conjunct1]
  note n3 = n [THEN conjunct2, THEN conjunct2, THEN conjunct1]
  note n4 = n [THEN conjunct2, THEN conjunct2, THEN conjunct2, THEN conjunct1]
  have two: "(2 :: nat) = Suc 1" by simp
  have gd: "fst (read_g_state env_refused_once
          (snd (streaming env_refused_once [0..<NB_RFM] (ctx_buffered ctx_two, world_streaming_dcc)))) = 1"
    and gn: "fst (read_g_state env_refused_once
          (hw ''SYNC_start_acq'' [] (snd (streaming env_refused_once [0..<NB_RFM] (ctx_buffered ctx_noise, world_streaming_noise))))) = 1"
    by (simp_all add: refused_once_defs upt_rec)
  have h5d: "(2 :: nat) = Suc 1 \<and> read_g_state env_refused_once
          (snd (streaming env_refused_once [0..<NB_RFM] (ctx_buffered ctx_two, world_streaming_dcc))) = (1, snd (read_g_state env_refused_once
          (snd (streaming env_refused_once [0..<NB_RFM] (ctx_buffered ctx_two, world_streaming_dcc)))))"
    using two gd by (simp only: prod_eq_iff fst_conv snd_conv simp_thms)
  have h5n: "(2 :: nat) = Suc 1 \<and> read_g_state env_refused_once
          (hw ''SYNC_start_acq'' [] (snd (streaming env_refused_once [0..<NB_RFM] (ctx_buffered ctx_noise, world_streaming_noise)))) = (1, snd (read_g_state env_refused_once
          (hw ''SYNC_start_acq'' [] (snd (streaming env_refused_once [0..<NB_RFM] (ctx_buffered ctx_noise, world_streaming_noise))))))"
    using two gn by (simp only: prod_eq_iff fst_conv snd_conv simp_thms)
  from d [THEN conjunct2, THEN conjunct2, THEN conjunct2, THEN conjunct2, rule_format, OF h5d]
  have d5: "device_loop_dcc env_refused_once (Suc 2) (ctx_two, world_init) =
       (case dcc_cycle env_refused_once 1
               ((fst (streaming env_refused_once [0..<NB_RFM] (ctx_buffered ctx_two, world_streaming_dcc)))\<lparr>cycle_id := cycle_id ctx_two + 1\<rparr>,
                snd (read_g_state env_refused_once
          (snd (streaming env_refused_once [0..<NB_RFM] (ctx_buffered ctx_two, world_streaming_dcc))))) of
          None \<Rightarrow> None
        | Some (Brk, cw) \<Rightarrow> Some cw
        | Some (Nxt, cw) \<Rightarrow> device_loop_dcc env_refused_once 1 cw)"
    by (simp only: simp_thms if_True)
  from n [THEN conjunct2, THEN conjunct2, THEN conjunct2, THEN conjunct2, rule_format, OF h5n]
  have n5: "device_loop_noise env_refused_once (Suc 2) (ctx_noise, world_init) =
       (case noise_cycle env_refused_once 1
               ((fst (streaming env_refused_once [0..<NB_RFM] (ctx_buffered ctx_noise, world_streaming_noise)))\<lparr>cycle_id := cycle_id ctx_noise + 1\<rparr>,
                snd (read_g_state env_refused_once
          (hw ''SYNC_start_acq'' [] (snd (streaming env_refused_once [0..<NB_RFM] (ctx_buffered ctx_noise, world_streaming_noise)))))) of
          None \<Rightarrow> None
        | Some (Brk, cw) \<Rightarrow> Some cw
        | Some (Nxt, cw) \<Rightarrow> device_loop_noise env_refused_once 1 cw)"
    by (simp only: simp_thms if_True)
  from k ad bd sd an bn sn ne hd hn d1 d2 d3 d4 n1 n2 n3 n4 two gd d5 gn n5
    device_loop_dcc_refused_once device_loop_noise_refused_once
  show ?thesis by (intro conjI) (elim conjE, assumption)+
qed

section \<open>Initialization: the budget of the PLL poll\<close>

declare pll_wait.simps [simp del]

lemma SYNC_pll_lck_simps:
  "fst (SYNC_pll_lck e w) = pll_lck e (clock w)"
  "snd (SYNC_pll_lck e w) = w\<lparr>clock := Suc (clock w)\<rparr>"
  by (simp_all add: SYNC_pll_lck_def poll_def)

lemma all_less_shift:
  "0 < n \<Longrightarrow> (\<forall>i<n. P (c + i)) = (P c \<and> (\<forall>i<n - 1. P (Suc c + i)))"
proof
  assume n: "0 < n" and a: "\<forall>i<n. P (c + i)"
  from a n have "P (c + 0)" by blast
  moreover have "P (Suc c + i)" if "i < n - 1" for i
  proof -
    from that have "Suc i < n" by simp
    with a have "P (c + Suc i)" by blast
    then show ?thesis by simp
  qed
  ultimately show "P c \<and> (\<forall>i<n - 1. P (Suc c + i))" by simp
next
  assume n: "0 < n" and a: "P c \<and> (\<forall>i<n - 1. P (Suc c + i))"
  show "\<forall>i<n. P (c + i)"
  proof (intro allI impI)
    fix i assume i: "i < n"
    show "P (c + i)"
    proof (cases i)
      case 0
      with a show ?thesis by simp
    next
      case (Suc j)
      with i have "j < n - 1" by simp
      with a have "P (Suc c + j)" by blast
      with Suc show ?thesis by simp
    qed
  qed
qed

lemma pll_wait_budget:
  "cnt \<le> 100 \<Longrightarrow>
     (100 \<le> fst (pll_wait e cnt w)) = (\<forall>i<100 - cnt. pll_lck e (clock w + i) = 0)"
proof (induction e cnt w rule: pll_wait.induct)
  case (1 e cnt w)
  show ?case
  proof (cases "fst (SYNC_pll_lck e w) = 0 \<and> cnt < 100")
    case True
    then have eq: "pll_wait e cnt w = pll_wait e (cnt + 1) (snd (SYNC_pll_lck e w))"
      by (subst pll_wait.simps) simp
    from True have le: "cnt + 1 \<le> 100" by simp
    from "1.IH" [OF True le]
    have ih: "(100 \<le> fst (pll_wait e (cnt + 1) (snd (SYNC_pll_lck e w))))
       = (\<forall>i<100 - (cnt + 1). pll_lck e (Suc (clock w) + i) = 0)"
      by (simp add: SYNC_pll_lck_simps)
    from True have pos: "0 < 100 - cnt" by simp
    from True have p0: "pll_lck e (clock w) = 0" by (simp add: SYNC_pll_lck_simps)
    have "(\<forall>i<100 - cnt. pll_lck e (clock w + i) = 0)
       = (pll_lck e (clock w) = 0 \<and> (\<forall>i<100 - cnt - 1. pll_lck e (Suc (clock w) + i) = 0))"
      by (rule all_less_shift [OF pos])
    with ih p0 show ?thesis unfolding eq by simp
  next
    case False
    have eq: "pll_wait e cnt w = (cnt, snd (SYNC_pll_lck e w))"
      by (subst pll_wait.simps) (simp only: False if_False)
    show ?thesis
    proof (cases "cnt < 100")
      case True
      with False have "pll_lck e (clock w) \<noteq> 0" by (simp add: SYNC_pll_lck_simps)
      then have "\<not> (\<forall>i<100 - cnt. pll_lck e (clock w + i) = 0)"
        using True by (metis add.right_neutral zero_less_diff)
      with True show ?thesis unfolding eq by simp
    next
      case False
      with "1.prems" have "cnt = 100" by simp
      then show ?thesis unfolding eq by simp
    qed
  qed
qed

lemma pll_wait_exhausted:
  "cnt \<le> 100 \<Longrightarrow> 100 \<le> fst (pll_wait e cnt w) \<Longrightarrow>
     pll_wait e cnt w = (100, w\<lparr>clock := clock w + (101 - cnt)\<rparr>)"
proof (induction e cnt w rule: pll_wait.induct)
  case (1 e cnt w)
  show ?case
  proof (cases "fst (SYNC_pll_lck e w) = 0 \<and> cnt < 100")
    case True
    then have eq: "pll_wait e cnt w = pll_wait e (cnt + 1) (snd (SYNC_pll_lck e w))"
      by (subst pll_wait.simps) simp
    from True have le: "cnt + 1 \<le> 100" by simp
    from "1.prems"(2) have "100 \<le> fst (pll_wait e (cnt + 1) (snd (SYNC_pll_lck e w)))"
      unfolding eq .
    from "1.IH" [OF True le this]
    have "pll_wait e (cnt + 1) (snd (SYNC_pll_lck e w))
        = (100, (snd (SYNC_pll_lck e w))\<lparr>clock := clock (snd (SYNC_pll_lck e w)) + (101 - (cnt + 1))\<rparr>)" .
    moreover have "Suc (clock w) + (101 - (cnt + 1)) = clock w + (101 - cnt)"
      using True by arith
    ultimately show ?thesis
      unfolding eq by (simp add: SYNC_pll_lck_simps)
  next
    case False
    have eq: "pll_wait e cnt w = (cnt, snd (SYNC_pll_lck e w))"
      by (subst pll_wait.simps) (simp only: False if_False)
    with "1.prems" have "cnt = 100" by simp
    then show ?thesis unfolding eq by (simp add: SYNC_pll_lck_simps)
  qed
qed

lemma pll_wait_trace: "trace (snd (pll_wait e cnt w)) = trace w"
proof (induction e cnt w rule: pll_wait.induct)
  case (1 e cnt w)
  show ?case
  proof (cases "fst (SYNC_pll_lck e w) = 0 \<and> cnt < 100")
    case True
    then have eq: "pll_wait e cnt w = pll_wait e (cnt + 1) (snd (SYNC_pll_lck e w))"
      by (subst pll_wait.simps) simp
    from "1.IH" [OF True] show ?thesis
      unfolding eq by (simp add: SYNC_pll_lck_simps)
  next
    case False
    have eq: "pll_wait e cnt w = (cnt, snd (SYNC_pll_lck e w))"
      by (subst pll_wait.simps) (simp only: False if_False)
    show ?thesis unfolding eq by (simp add: SYNC_pll_lck_simps)
  qed
qed

lemma quiet_refl: "quiet m w w"
  by (simp add: quiet_def)

lemma quiet_event:
  "quiet m w w' \<Longrightarrow> trace w'' = trace w' @ [ev] \<Longrightarrow> ev \<noteq> Log m \<Longrightarrow> quiet m w w''"
  by (auto simp: quiet_def)

lemma quiet_same: "quiet m w w' \<Longrightarrow> trace w'' = trace w' \<Longrightarrow> quiet m w w''"
  by (auto simp: quiet_def)

lemma quiet_hw: "quiet m w w' \<Longrightarrow> quiet m w (hw f args w')"
  by (auto simp: quiet_def hw_def)

lemma quiet_log: "msg \<noteq> m \<Longrightarrow> quiet m w w' \<Longrightarrow> quiet m w (log_printf msg w')"
  by (auto simp: quiet_def log_printf_def)

lemma quiet_fold:
  "(\<And>x v. quiet m w v \<Longrightarrow> quiet m w (f x v)) \<Longrightarrow> quiet m w w' \<Longrightarrow> quiet m w (fold f xs w')"
  by (induction xs arbitrary: w') simp_all

lemma quiet_push_tables: "quiet m w w' \<Longrightarrow> quiet m w (push_tables ctx delta r w')"
  unfolding push_tables_def Let_def
  by (intro quiet_fold) (auto intro!: quiet_hw)

lemma quiet_hrsc_from_db_loop:
  "quiet m w w' \<Longrightarrow> quiet m w (snd (hrsc_from_db_loop e ctx rs w'))"
proof (induction rs arbitrary: w')
  case Nil
  then show ?case by simp
next
  case (Cons r rs)
  show ?case
    by (auto simp: Let_def intro!: Cons.IH quiet_hw quiet_push_tables Cons.prems)
qed

lemma quiet_hrsc_from_csv_loop:
  "quiet m w w' \<Longrightarrow> quiet m w (snd (hrsc_from_csv_loop e ctx rs w'))"
proof (induction rs arbitrary: w')
  case Nil
  then show ?case by simp
next
  case (Cons r rs)
  show ?case
    by (auto simp: Let_def intro!: Cons.IH quiet_hw quiet_push_tables Cons.prems)
qed

lemma final_world_simps [simp]:
  "final_world (Inl (f, w)) = w" "final_world (Inr (err, ctx, w)) = w"
  by (simp_all add: final_world_def)

lemma quiet_init_scks_loop:
  "quiet ''the PLL is not locked'' w w' \<Longrightarrow>
     quiet ''the PLL is not locked'' w (final_world (init_scks_loop e js ctx w'))"
proof (induction js arbitrary: ctx w')
  case Nil
  then show ?case by simp
next
  case (Cons j js)
  show ?case
    by (auto simp: Let_def split: option.split intro!: Cons.IH quiet_hw quiet_log Cons.prems)
qed

lemma device_init_scks_null_address:
  "device_init_scks env_ok ctx_two world_init =
     Inl (Null_string, world_init\<lparr>trace := [Call ''socket'' [0], Call ''inet_pton'' [0]]\<rparr>)"
  by (simp add: device_init_scks_def sample_defs upt_rec)

lemma quiet_new_trace:
  "quiet m w w' \<Longrightarrow> Log m \<notin> set (drop (length (trace w)) (trace w'))"
  by (auto simp: quiet_def)

lemma quiet_trace_upd:
  "quiet m w w' \<Longrightarrow> ev \<noteq> Log m \<Longrightarrow> quiet m w (w'\<lparr>trace := trace w' @ [ev]\<rparr>)"
  by (auto simp: quiet_def)

lemma quiet_open_files: "quiet m w w' \<Longrightarrow> quiet m w (w'\<lparr>open_files := X\<rparr>)"
  by (auto simp: quiet_def)

lemma quiet_close:
  "quiet m w w' \<Longrightarrow> quiet m w (w'\<lparr>trace := trace w' @ [Fclose h], open_files := X\<rparr>)"
  by (auto simp: quiet_def)

lemma device_init_mmap_quiet:
  "quiet ''the PLL is not locked'' w (snd (snd (device_init_mmap e ctx w)))"
  by (auto simp: device_init_mmap_def Let_def
      intro!: quiet_trace_upd quiet_hw quiet_log quiet_refl)

lemma device_init_mmap_ok:
  "fst (device_init_mmap e ctx w) = 0 \<Longrightarrow>
     device_init_mmap e ctx w =
       (0, ctx\<lparr>mem_fd := open_mem e\<rparr>, hw ''mmap_h2f'' [] (hw ''mmap_lw_h2f'' [] (hw ''open'' [] w)))"
  by (auto simp: device_init_mmap_def Let_def split: if_splits)

lemma device_init_mmap_failed:
  "fst (device_init_mmap e ctx w) \<noteq> 0 \<Longrightarrow>
     Log ''the PLL is not locked''
       \<notin> set (drop (length (trace w))
                (trace (log_printf ''could not initialize mmap'' (snd (snd (device_init_mmap e ctx w))))))"
  by (rule quiet_new_trace) (intro quiet_log device_init_mmap_quiet, simp)

lemma device_init_fpga_exhausted:
  assumes "\<forall>i<100. pll_lck e (clock w + i) = 0"
  shows "device_init_fpga e ctx w =
    (- 1, w\<lparr>clock := clock w + 101,
            trace := trace w @ [Call ''SYNC_reset_fpga'' [], Log ''the PLL is not locked'']\<rparr>)"
proof -
  define w0 where "w0 = hw ''SYNC_reset_fpga'' [] w"
  have c: "clock w0 = clock w" by (simp add: w0_def hw_def)
  from assms have "100 \<le> fst (pll_wait e 0 w0)"
    using pll_wait_budget [of 0 e w0] by (simp add: c)
  from pll_wait_exhausted [OF _ this]
  have "pll_wait e 0 w0 = (100, w0\<lparr>clock := clock w0 + 101\<rparr>)" by simp
  then show ?thesis
    by (simp add: device_init_fpga_def w0_def [symmetric] Let_def)
      (simp add: w0_def hw_def log_printf_def)
qed

lemma device_init_fpga_locked:
  assumes "\<exists>i<100. pll_lck e (clock w + i) \<noteq> 0"
  shows "fst (device_init_fpga e ctx w) = 0
    \<and> quiet ''the PLL is not locked'' w (snd (device_init_fpga e ctx w))"
proof -
  define w0 where "w0 = hw ''SYNC_reset_fpga'' [] w"
  have c: "clock w0 = clock w" by (simp add: w0_def hw_def)
  obtain cnt_poll w1 where p: "pll_wait e 0 w0 = (cnt_poll, w1)" by (cases "pll_wait e 0 w0")
  from assms have "\<not> 100 \<le> fst (pll_wait e 0 w0)"
    using pll_wait_budget [of 0 e w0] by (simp add: c)
  with p have lt: "\<not> 100 \<le> cnt_poll" by simp
  have "trace w1 = trace w0" using pll_wait_trace [of e 0 w0] p by simp
  then have q1: "quiet ''the PLL is not locked'' w w1"
    by (auto simp: quiet_def w0_def hw_def)
  have q2: "quiet ''the PLL is not locked'' w (snd (SYNC_pll_lck e w1))"
    by (rule quiet_same [OF q1]) (simp add: SYNC_pll_lck_simps)
  show ?thesis
    unfolding device_init_fpga_def Let_def w0_def [symmetric] p split_conv
    using lt q2
    by (auto simp: split_def intro!: quiet_hw quiet_fold)
qed

lemma device_init_hrsc_from_csv_quiet:
  assumes "quiet ''the PLL is not locked'' w w'"
  shows "quiet ''the PLL is not locked'' w (snd (device_init_hrsc_from_csv e ctx w'))"
proof -
  define w1 where "w1 = fold (\<lambda>n. hw ''HRSC_copy_conf'' [0, n]) [1..<8] w'"
  have q1: "quiet ''the PLL is not locked'' w w1"
    unfolding w1_def by (intro quiet_fold quiet_hw assms)
  show ?thesis
  proof (cases "fopen_sc e")
    case None
    then show ?thesis
      unfolding device_init_hrsc_from_csv_def Let_def w1_def [symmetric]
      by (simp add: quiet_log [OF _ q1])
  next
    case (Some sc_file)
    define w2 where "w2 = w1\<lparr>open_files := insert sc_file (open_files w1)\<rparr>"
    obtain err w3 where l: "hrsc_from_csv_loop e ctx [0..<NB_RFM] w2 = (err, w3)"
      by (cases "hrsc_from_csv_loop e ctx [0..<NB_RFM] w2")
    have "quiet ''the PLL is not locked'' w w2"
      unfolding w2_def by (rule quiet_open_files [OF q1])
    from quiet_hrsc_from_csv_loop [OF this, of e ctx "[0..<NB_RFM]"] l
    have q3: "quiet ''the PLL is not locked'' w w3" by simp
    have q4: "quiet ''the PLL is not locked'' w
        (hw ''system'' [] (w3\<lparr>trace := trace w3 @ [Fclose sc_file],
                               open_files := open_files w3 - {sc_file}\<rparr>))"
      by (intro quiet_hw quiet_close q3)
    show ?thesis
      unfolding device_init_hrsc_from_csv_def Let_def w1_def [symmetric]
      using Some l q3 q4
      by (simp add: w2_def [symmetric] quiet_log)
  qed
qed

lemma device_init_hrsc_quiet:
  assumes "quiet ''the PLL is not locked'' w w'"
  shows "quiet ''the PLL is not locked'' w (snd (device_init_hrsc e ctx w'))"
proof -
  define w1 where "w1 = fold (\<lambda>hr_addr. hw ''HRSC_set_chip_id'' [hr_addr, hr_addr + 1]) [0..<8]
            (hw ''HRSC_set_shaper_capa'' [0, 3]
               (hw ''HRSC_set_shaper_resis'' [0, unat (rshaper ctx)]
                  (hw ''HRSC_set_bit'' [0, 854, 0] w')))"
  have q1: "quiet ''the PLL is not locked'' w w1"
    unfolding w1_def by (intro quiet_fold quiet_hw assms)
  have db: "quiet ''the PLL is not locked'' w (snd (device_init_hrsc_from_db e ctx w1))"
    unfolding device_init_hrsc_from_db_def by (rule quiet_hrsc_from_db_loop [OF q1])
  have csv: "quiet ''the PLL is not locked'' w (snd (device_init_hrsc_from_csv e ctx w1))"
    by (rule device_init_hrsc_from_csv_quiet [OF q1])
  have bad: "quiet ''the PLL is not locked'' w (log_printf ''invalid configuration mode'' w1)"
    by (rule quiet_log [OF _ q1]) simp
  show ?thesis
    unfolding device_init_hrsc_def Let_def w1_def [symmetric]
    using db csv bad by simp
qed

lemma three_way_unmapped:
  "\<not> B \<Longrightarrow> \<not> A \<Longrightarrow> (A = (B \<and> C)) \<and> (B \<and> C \<longrightarrow> F) \<and> (B \<and> D \<longrightarrow> G)"
  by blast

lemma three_way_exhausted:
  "B \<Longrightarrow> C \<Longrightarrow> A \<Longrightarrow> F \<Longrightarrow> \<not> D \<Longrightarrow>
     (A = (B \<and> C)) \<and> (B \<and> C \<longrightarrow> F) \<and> (B \<and> D \<longrightarrow> G)"
  by blast

lemma three_way_locked:
  "B \<Longrightarrow> \<not> C \<Longrightarrow> \<not> A \<Longrightarrow> G \<Longrightarrow>
     (A = (B \<and> C)) \<and> (B \<and> C \<longrightarrow> F) \<and> (B \<and> D \<longrightarrow> G)"
  by blast

text \<open>
  Claim C7: \<open>device_initialize\<close> logs "the PLL is not locked" exactly when the memory
  mapping has succeeded and none of the first 100 reads of the PLL-lock flag finds it
  set. In that case it returns -1 from the check of \<open>device_init_fpga\<close>, having
  called nothing but \<open>open\<close>, the two mappings and \<open>SYNC_reset_fpga\<close>: no socket has
  been created and no task has been touched. (The flag is read a 101st time, by the
  loop condition, before the counter is compared; what that read returns is not used.)
  When one of the first 100 reads finds the flag set, \<open>device_init_fpga\<close> returns 0 and
  the result of \<open>device_initialize\<close> is that of the chip configuration and the socket
  initialization that follow, a fault of the socket initialization included.
\<close>

theorem device_initialize_pll_budget:
  "(Log ''the PLL is not locked''
      \<in> set (drop (length (trace w)) (trace (final_world (device_initialize e ctx w)))))
     = (fst (device_init_mmap e ctx w) = 0 \<and> (\<forall>i<100. pll_lck e (clock w + i) = 0))
   \<and> (fst (device_init_mmap e ctx w) = 0 \<and> (\<forall>i<100. pll_lck e (clock w + i) = 0) \<longrightarrow>
        device_initialize e ctx w =
          Inr (- 1, ctx\<lparr>mem_fd := open_mem e\<rparr>,
           w\<lparr>clock := clock w + 101,
             trace := trace w @ [Call ''open'' [], Call ''mmap_lw_h2f'' [], Call ''mmap_h2f'' [],
               Call ''SYNC_reset_fpga'' [], Log ''the PLL is not locked'',
               Log ''could not initialize fpga'']\<rparr>)
        \<and> called ''socket''
             (drop (length (trace w)) (trace (final_world (device_initialize e ctx w)))) = []
        \<and> (\<exists>err ctx' w'. device_initialize e ctx w = Inr (err, ctx', w') \<and> task ctx' = task ctx))
   \<and> (fst (device_init_mmap e ctx w) = 0 \<and> (\<exists>i<100. pll_lck e (clock w + i) \<noteq> 0) \<longrightarrow>
        fst (device_init_fpga e (ctx\<lparr>mem_fd := open_mem e\<rparr>)
               (hw ''mmap_h2f'' [] (hw ''mmap_lw_h2f'' [] (hw ''open'' [] w)))) = 0
        \<and> device_initialize e ctx w =
           (let (err, w2) = device_init_hrsc e (ctx\<lparr>mem_fd := open_mem e\<rparr>)
                   (snd (device_init_fpga e (ctx\<lparr>mem_fd := open_mem e\<rparr>)
                      (hw ''mmap_h2f'' [] (hw ''mmap_lw_h2f'' [] (hw ''open'' [] w)))))
            in if err \<noteq> 0
               then Inr (- 1, ctx\<lparr>mem_fd := open_mem e\<rparr>, log_printf ''could not initialize hrsc'' w2)
               else
                 case device_init_scks e (ctx\<lparr>mem_fd := open_mem e\<rparr>) w2 of
                   Inl f \<Rightarrow> Inl f
                 | Inr (err, ctx3, w3) \<Rightarrow>
                     if err \<noteq> 0 then Inr (- 1, ctx3, log_printf ''could not initialize scks'' w3)
                     else Inr (0, ctx3, w3)))"
proof -
  let ?m = "''the PLL is not locked''"
  let ?new = "drop (length (trace w)) (trace (final_world (device_initialize e ctx w)))"
  let ?c1 = "ctx\<lparr>mem_fd := open_mem e\<rparr>"
  let ?w1 = "hw ''mmap_h2f'' [] (hw ''mmap_lw_h2f'' [] (hw ''open'' [] w))"
  let ?exhausted = "\<forall>i<100. pll_lck e (clock w + i) = 0"
  let ?failure = "device_initialize e ctx w =
          Inr (- 1, ?c1,
           w\<lparr>clock := clock w + 101,
             trace := trace w @ [Call ''open'' [], Call ''mmap_lw_h2f'' [], Call ''mmap_h2f'' [],
               Call ''SYNC_reset_fpga'' [], Log ?m, Log ''could not initialize fpga'']\<rparr>)
        \<and> called ''socket'' ?new = []
        \<and> (\<exists>err ctx' w'. device_initialize e ctx w = Inr (err, ctx', w') \<and> task ctx' = task ctx)"
  let ?goes_on = "fst (device_init_fpga e ?c1 ?w1) = 0
        \<and> device_initialize e ctx w =
           (let (err, w2) = device_init_hrsc e ?c1 (snd (device_init_fpga e ?c1 ?w1))
            in if err \<noteq> 0
               then Inr (- 1, ?c1, log_printf ''could not initialize hrsc'' w2)
               else
                 case device_init_scks e ?c1 w2 of
                   Inl f \<Rightarrow> Inl f
                 | Inr (err, ctx3, w3) \<Rightarrow>
                     if err \<noteq> 0 then Inr (- 1, ctx3, log_printf ''could not initialize scks'' w3)
                     else Inr (0, ctx3, w3))"
  have "(Log ?m \<in> set ?new) = (fst (device_init_mmap e ctx w) = 0 \<and> ?exhausted)
      \<and> (fst (device_init_mmap e ctx w) = 0 \<and> ?exhausted \<longrightarrow> ?failure)
      \<and> (fst (device_init_mmap e ctx w) = 0 \<and> (\<exists>i<100. pll_lck e (clock w + i) \<noteq> 0)
            \<longrightarrow> ?goes_on)"
  proof (cases "fst (device_init_mmap e ctx w) = 0")
    case False
    obtain r c1 w1 where m: "device_init_mmap e ctx w = (r, c1, w1)"
      by (cases "device_init_mmap e ctx w")
    with False have r: "r \<noteq> 0" by simp
    have "device_initialize e ctx w = Inr (- 1, c1, log_printf ''could not initialize mmap'' w1)"
      using m r by (simp add: device_initialize_def)
    with device_init_mmap_failed [OF False] m have "Log ?m \<notin> set ?new" by simp
    with False show ?thesis by (rule three_way_unmapped)
  next
    case True
    have m: "device_init_mmap e ctx w = (0, ?c1, ?w1)"
      by (rule device_init_mmap_ok [OF True])
    have c: "clock ?w1 = clock w"
      and t: "trace ?w1 = trace w @ [Call ''open'' [], Call ''mmap_lw_h2f'' [], Call ''mmap_h2f'' []]"
      by (simp_all add: hw_def)
    have q1: "quiet ?m w ?w1"
      by (intro quiet_hw quiet_refl)
    show ?thesis
    proof (cases ?exhausted)
      case all: True
      then have "\<forall>i<100. pll_lck e (clock ?w1 + i) = 0" by (simp only: c)
      from device_init_fpga_exhausted [OF this, of ?c1]
      have f: "device_init_fpga e ?c1 ?w1 =
        (- 1, ?w1\<lparr>clock := clock ?w1 + 101,
              trace := trace ?w1 @ [Call ''SYNC_reset_fpga'' [], Log ?m]\<rparr>)" .
      have res: "device_initialize e ctx w =
            Inr (- 1, ?c1,
             w\<lparr>clock := clock w + 101,
               trace := trace w @ [Call ''open'' [], Call ''mmap_lw_h2f'' [], Call ''mmap_h2f'' [],
                 Call ''SYNC_reset_fpga'' [], Log ?m, Log ''could not initialize fpga'']\<rparr>)"
      proof -
        have "device_initialize e ctx w =
            Inr (- 1, ?c1, log_printf ''could not initialize fpga''
               (?w1\<lparr>clock := clock ?w1 + 101,
                     trace := trace ?w1 @ [Call ''SYNC_reset_fpga'' [], Log ?m]\<rparr>))"
          by (simp add: device_initialize_def m f)
        then show ?thesis by (simp add: log_printf_def hw_def)
      qed
      have mem: "Log ?m \<in> set ?new" unfolding res by simp
      have fail: ?failure unfolding res by simp
      from all have nex: "\<not> (\<exists>i<100. pll_lck e (clock w + i) \<noteq> 0)" by blast
      from True all mem fail nex show ?thesis by (rule three_way_exhausted)
    next
      case some: False
      then have ex: "\<exists>i<100. pll_lck e (clock ?w1 + i) \<noteq> 0" by (simp add: c)
      obtain r2 w2 where f: "device_init_fpga e ?c1 ?w1 = (r2, w2)"
        by (cases "device_init_fpga e ?c1 ?w1")
      from device_init_fpga_locked [OF ex, of ?c1] f
      have r2: "r2 = 0" and q2: "quiet ?m ?w1 w2" by simp_all
      have q2': "quiet ?m w w2"
        using q1 q2 by (auto simp: quiet_def)
      obtain r3 w3 where h: "device_init_hrsc e ?c1 w2 = (r3, w3)"
        by (cases "device_init_hrsc e ?c1 w2")
      from device_init_hrsc_quiet [OF q2', of e ?c1] h
      have q3: "quiet ?m w w3" by simp
      from quiet_init_scks_loop [OF q3, of e "[0..<NB_RFM]" ?c1]
      have q4: "quiet ?m w (final_world (device_init_scks e ?c1 w3))"
        by (simp add: device_init_scks_def)
      have res: "device_initialize e ctx w =
          (if r3 \<noteq> 0 then Inr (- 1, ?c1, log_printf ''could not initialize hrsc'' w3)
           else case device_init_scks e ?c1 w3 of
                  Inl f \<Rightarrow> Inl f
                | Inr (err, ctx3, w3) \<Rightarrow>
                    if err \<noteq> 0 then Inr (- 1, ctx3, log_printf ''could not initialize scks'' w3)
                    else Inr (0, ctx3, w3))"
        by (simp add: device_initialize_def m f r2 h)
      have "quiet ?m w (final_world (device_initialize e ctx w))"
        unfolding res using q3 q4
        by (auto simp: quiet_log split: sum.split)
      from quiet_new_trace [OF this] have no: "Log ?m \<notin> set ?new" .
      have f0: "fst (device_init_fpga e ?c1 ?w1) = 0" by (simp add: f r2)
      have cont: "device_initialize e ctx w =
           (let (err, w2) = device_init_hrsc e ?c1 (snd (device_init_fpga e ?c1 ?w1))
            in if err \<noteq> 0
               then Inr (- 1, ?c1, log_printf ''could not initialize hrsc'' w2)
               else
                 case device_init_scks e ?c1 w2 of
                   Inl f \<Rightarrow> Inl f
                 | Inr (err, ctx3, w3) \<Rightarrow>
                     if err \<noteq> 0 then Inr (- 1, ctx3, log_printf ''could not initialize scks'' w3)
                     else Inr (0, ctx3, w3))"
        unfolding res by (simp add: f h)
      from f0 cont have go: ?goes_on by (rule conjI)
      from True some no go show ?thesis by (rule three_way_locked)
    qed
  qed
  then show ?thesis .
qed

theorem device_initialize_pll_budget_witness:
  "fst (device_init_mmap env_no_lock ctx_two world_init) = 0
   \<and> pll_lck env_no_lock = (\<lambda>_. 0)
   \<and> device_initialize env_no_lock ctx_two world_init =
       Inr (- 1, ctx_two\<lparr>mem_fd := 3\<rparr>,
        world_init\<lparr>clock := 101,
          trace := [Call ''open'' [], Call ''mmap_lw_h2f'' [], Call ''mmap_h2f'' [],
            Call ''SYNC_reset_fpga'' [], Log ''the PLL is not locked'',
            Log ''could not initialize fpga'']\<rparr>)
   \<and> fst (device_init_mmap env_ok ctx_two world_init) = 0
   \<and> pll_lck env_ok (clock world_init + 0) \<noteq> 0
   \<and> fst (device_init_fpga env_ok (ctx_two\<lparr>mem_fd := 3\<rparr>)
            (hw ''mmap_h2f'' [] (hw ''mmap_lw_h2f'' [] (hw ''open'' [] world_init)))) = 0
   \<and> Log ''the PLL is not locked''
        \<notin> set (trace (final_world (device_initialize env_ok ctx_two world_init)))"
proof -
  have m: "fst (device_init_mmap env_no_lock ctx_two world_init) = 0"
    and m': "fst (device_init_mmap env_ok ctx_two world_init) = 0"
    by (simp_all add: device_init_mmap_def env_no_lock_def env_ok_def Let_def)
  have p: "pll_lck env_no_lock = (\<lambda>_. 0)" by (simp add: env_no_lock_def env_ok_def)
  then have all: "\<forall>i<100. pll_lck env_no_lock (clock world_init + i) = 0" by simp
  have o: "open_mem env_no_lock = 3" "open_mem env_ok = 3"
    by (simp_all add: env_no_lock_def env_ok_def)
  have w: "clock world_init = 0" "trace world_init = []" by (simp_all add: world_init_def)
  have p': "pll_lck env_ok (clock world_init + 0) \<noteq> 0" by (simp add: env_ok_def)
  have "(0 :: nat) < 100" by simp
  with p' have some: "\<exists>i<100. pll_lck env_ok (clock world_init + i) \<noteq> 0" by blast
  note t = device_initialize_pll_budget [of world_init env_no_lock ctx_two]
  from t m all have r: "device_initialize env_no_lock ctx_two world_init =
       Inr (- 1, ctx_two\<lparr>mem_fd := 3\<rparr>,
        world_init\<lparr>clock := 101,
          trace := [Call ''open'' [], Call ''mmap_lw_h2f'' [], Call ''mmap_h2f'' [],
            Call ''SYNC_reset_fpga'' [], Log ''the PLL is not locked'',
            Log ''could not initialize fpga'']\<rparr>)"
    by (simp add: o w)
  note t' = device_initialize_pll_budget [of world_init env_ok ctx_two]
  from some have nall: "\<not> (\<forall>i<100. pll_lck env_ok (clock world_init + i) = 0)" by blast
  from t' m' some have f: "fst (device_init_fpga env_ok (ctx_two\<lparr>mem_fd := 3\<rparr>)
            (hw ''mmap_h2f'' [] (hw ''mmap_lw_h2f'' [] (hw ''open'' [] world_init)))) = 0"
    unfolding o by blast
  from t' nall have "Log ''the PLL is not locked''
        \<notin> set (drop (length (trace world_init))
                 (trace (final_world (device_initialize env_ok ctx_two world_init))))"
    by blast
  then have n: "Log ''the PLL is not locked''
        \<notin> set (trace (final_world (device_initialize env_ok ctx_two world_init)))"
    by (simp add: w)
  from m p r m' p' f n show ?thesis by (intro conjI)
qed

end
